theory Spec2Isabelle
  imports Complex_Main
begin

section \<open>Philips Pet Series: the data-update coordinator, setup and teardown\<close>

text \<open>
  The component is one Python module: a coordinator whose \<^verbatim>\<open>_async_update_data\<close> pulls
  homes, devices, events, settings, meals and the local (Tuya) status from the
  \<^verbatim>\<open>petsseries\<close> client into one dictionary, \<^verbatim>\<open>async_setup_entry\<close> and
  \<^verbatim>\<open>async_unload_entry\<close>.

  Everything the module calls and does not define (the client library, \<^verbatim>\<open>asyncio.sleep\<close>,
  the host platform) is a parameter of the model. An awaited call answers as a function of
  the history of the calls made so far, so two calls of the same operation may answer
  differently; the model appends every call, with its answer, to that history. A Python
  exception is a value of type \<open>exn\<close>, and a function that may raise returns
  \<open>exn + 'a\<close> with \<open>Inl\<close> for the exception. Every \<^verbatim>\<open>await\<close> may answer with an exception,
  the cancellation of the running task included. Log messages are not modelled.
\<close>

subsection \<open>Exceptions\<close>

text \<open>
  \<open>Exception msg\<close> stands for any instance of \<^verbatim>\<open>Exception\<close> an external call raises, with
  \<^verbatim>\<open>str(e) = msg\<close>. \<open>UnboundLocalError\<close> and \<open>KeyError\<close> are the two exceptions the
  module's own statements can raise. \<open>UpdateFailed\<close> and \<open>ConfigEntryAuthFailed\<close> carry
  their message and the exception they were raised \<^verbatim>\<open>from\<close>.
  \<open>CancelledError\<close> is \<^verbatim>\<open>asyncio.CancelledError\<close>, raised at an \<^verbatim>\<open>await\<close> when the running task is
  cancelled; \<open>BaseExceptionOnly msg\<close> stands for any other exception that derives from
  \<^verbatim>\<open>BaseException\<close> and not from \<^verbatim>\<open>Exception\<close>.
\<close>

datatype exn =
    Exception string
  | UnboundLocalError string
  | KeyError string
  | UpdateFailed string exn
  | ConfigEntryAuthFailed string exn
  | CancelledError
  | BaseExceptionOnly string

text \<open>\<^verbatim>\<open>isinstance(e, Exception)\<close>: what a clause \<^verbatim>\<open>except Exception\<close> catches.\<close>

fun is_Exception :: "exn \<Rightarrow> bool" where
  "is_Exception CancelledError = False"
| "is_Exception (BaseExceptionOnly msg) = False"
| "is_Exception _ = True"

text \<open>
  \<^verbatim>\<open>repr(s)\<close> of a string of ASCII characters: in double quotes when the string has an
  apostrophe and no double quote, in single quotes otherwise; backslash and the enclosing
  quote are escaped, and so is every character that is not printable.
\<close>

definition hex_digit :: "nat \<Rightarrow> char" where
  "hex_digit n = ''0123456789abcdef'' ! (n mod 16)"

definition repr_char :: "char \<Rightarrow> char \<Rightarrow> string" where
  "repr_char quote c =
     (if c = CHR 0x5C then [CHR 0x5C, CHR 0x5C]
      else if c = quote then [CHR 0x5C, c]
      else if c = CHR 0x09 then [CHR 0x5C, CHR ''t'']
      else if c = CHR 0x0A then [CHR 0x5C, CHR ''n'']
      else if c = CHR 0x0D then [CHR 0x5C, CHR ''r'']
      else if (of_char c :: nat) < 32 \<or> (of_char c :: nat) = 127
      then [CHR 0x5C, CHR ''x'', hex_digit (of_char c div 16), hex_digit (of_char c)]
      else [c])"

definition py_repr :: "string \<Rightarrow> string" where
  "py_repr s =
     (let quote = (if CHR 0x27 \<in> set s \<and> CHR 0x22 \<notin> set s then CHR 0x22 else CHR 0x27)
      in [quote] @ concat (map (repr_char quote) s) @ [quote])"

text \<open>
  \<^verbatim>\<open>str(e)\<close>. The text of an \<^verbatim>\<open>UnboundLocalError\<close> is the one of CPython 3.11 and later; the
  text of a \<^verbatim>\<open>KeyError\<close> is the \<^verbatim>\<open>repr\<close> of the key; a cancellation has no text.
\<close>

fun str_exn :: "exn \<Rightarrow> string" where
  "str_exn (Exception msg) = msg"
| "str_exn (UnboundLocalError v) =
     ''cannot access local variable '' @ [CHR 0x27] @ v @ [CHR 0x27]
       @ '' where it is not associated with a value''"
| "str_exn (KeyError k) = py_repr k"
| "str_exn (UpdateFailed msg cause) = msg"
| "str_exn (ConfigEntryAuthFailed msg cause) = msg"
| "str_exn CancelledError = []"
| "str_exn (BaseExceptionOnly msg) = msg"

subsection \<open>Data of the client library\<close>

text \<open>
  The module reads one attribute of a home and of a device, \<^verbatim>\<open>.id\<close>; the name stands for
  the rest of the object. Events and meals are never inspected: they are the type
  parameters \<open>'e\<close> and \<open>'m\<close>. A local status is a \<open>'v\<close>.
\<close>

record home =
  home_id :: string
  home_name :: string

record device =
  device_id :: string
  device_name :: string

text \<open>
  An event type as the module looks at it: an instance of \<^verbatim>\<open>str\<close>; or an object with a
  \<^verbatim>\<open>.value\<close> attribute (an enum member), given by its \<^verbatim>\<open>str()\<close> and its formatted value; or
  any other object, given by its \<^verbatim>\<open>str()\<close>.
\<close>

datatype event_type =
    StrType string
  | ValueType string string
  | OtherType string

text \<open>\<^verbatim>\<open>str(event_type)\<close>, the \<^verbatim>\<open>types\<close> argument of \<^verbatim>\<open>get_events\<close>.\<close>

fun py_str :: "event_type \<Rightarrow> string" where
  "py_str (StrType s) = s"
| "py_str (ValueType s v) = s"
| "py_str (OtherType s) = s"

text \<open>Lines 83 to 91: the normalised \<^verbatim>\<open>event_type_str\<close>.\<close>

fun event_type_str :: "event_type \<Rightarrow> string" where
  "event_type_str (StrType s) = s"
| "event_type_str (ValueType s v) = v"
| "event_type_str (OtherType s) = s"

text \<open>Line 93: \<^verbatim>\<open>f"{home.id}_{event_type_str}"\<close>.\<close>

definition event_key :: "home \<Rightarrow> event_type \<Rightarrow> string" where
  "event_key home event_type = home_id home @ ''_'' @ event_type_str event_type"

text \<open>A Python value that may be \<^verbatim>\<open>None\<close>.\<close>

datatype 'v pyval = PyNone | Val 'v

text \<open>
  \<^verbatim>\<open>datetime(y, m, d, tzinfo=timezone(timedelta(hours=n)))\<close>: midnight of the day, with the
  offset from UTC in seconds.
\<close>

record datetime =
  year :: nat
  month :: nat
  day :: nat
  hour :: nat
  minute :: nat
  second :: nat
  utcoffset :: int

definition timedelta_hours :: "int \<Rightarrow> int" where
  "timedelta_hours n = n * 3600"

definition mk_datetime :: "nat \<Rightarrow> nat \<Rightarrow> nat \<Rightarrow> int \<Rightarrow> datetime" where
  "mk_datetime y m d tz =
     \<lparr>year = y, month = m, day = d, hour = 0, minute = 0, second = 0, utcoffset = tz\<rparr>"

definition from_date :: datetime where
  "from_date = mk_datetime 2024 1 1 (timedelta_hours 2)"

definition to_date :: datetime where
  "to_date = mk_datetime 2100 1 1 (timedelta_hours 2)"

datatype platform = SWITCH | SENSOR | SELECT | NUMBER | BUTTON | CALENDAR

definition PLATFORMS :: "platform list" where
  "PLATFORMS = [SWITCH, SENSOR, SELECT, NUMBER, BUTTON, CALENDAR]"

subsection \<open>Outbound calls and their history\<close>

text \<open>One entry per call the module awaits, with the arguments it passed and the answer.\<close>

datatype ('e, 'm, 'v) call =
    GetHomes "exn + home list"
  | GetDevices home "exn + device list"
  | GetEvents home datetime datetime string "exn + 'e list"
  | GetSettings home string "exn + (string \<rightharpoonup> 'v pyval)"
  | GetTuyaStatus "exn + 'v pyval"
  | GetMeals home "exn + 'm list"
  | Sleep rat "exn + unit"
  | Initialize "exn + unit"
  | Close "exn + unit"
  | ForwardEntrySetups string "platform list" "exn + unit"
  | UnloadPlatforms string "platform list" "exn + bool"

type_synonym ('e, 'm, 'v) history = "('e, 'm, 'v) call list"

text \<open>An action of the module: from the history so far to a result and the new history.\<close>

type_synonym ('a, 'e, 'm, 'v) io =
  "('e, 'm, 'v) history \<Rightarrow> (exn + 'a) \<times> ('e, 'm, 'v) history"

text \<open>
  The \<^verbatim>\<open>PetsSeriesClient\<close> object. \<open>tuya_client\<close> is the truth value of the attribute of
  that name. \<open>get_event_types\<close> is the static \<^verbatim>\<open>Event.get_event_types()\<close> of the same
  library, a fixed enumeration.
\<close>

record ('e, 'm, 'v) PetsSeriesClient =
  get_homes :: "('e, 'm, 'v) history \<Rightarrow> exn + home list"
  get_devices :: "home \<Rightarrow> ('e, 'm, 'v) history \<Rightarrow> exn + device list"
  get_events ::
    "home \<Rightarrow> datetime \<Rightarrow> datetime \<Rightarrow> string \<Rightarrow> ('e, 'm, 'v) history \<Rightarrow> exn + 'e list"
  get_settings :: "home \<Rightarrow> string \<Rightarrow> ('e, 'm, 'v) history \<Rightarrow> exn + (string \<rightharpoonup> 'v pyval)"
  get_meals :: "home \<Rightarrow> ('e, 'm, 'v) history \<Rightarrow> exn + 'm list"
  tuya_client :: bool
  get_tuya_status :: "('e, 'm, 'v) history \<Rightarrow> exn + 'v pyval"
  get_event_types :: "event_type list"
  initialize :: "('e, 'm, 'v) history \<Rightarrow> exn + unit"
  close :: "('e, 'm, 'v) history \<Rightarrow> exn + unit"

text \<open>Sequencing: the first exception ends the action, as it ends the \<^verbatim>\<open>try\<close> body.\<close>

definition return_io :: "'a \<Rightarrow> 'h \<Rightarrow> (exn + 'a) \<times> 'h" where
  "return_io x h = (Inr x, h)"

definition raise_io :: "exn \<Rightarrow> 'h \<Rightarrow> (exn + 'a) \<times> 'h" where
  "raise_io e h = (Inl e, h)"

definition bind_io ::
  "('h \<Rightarrow> (exn + 'a) \<times> 'h) \<Rightarrow> ('a \<Rightarrow> 'h \<Rightarrow> (exn + 'b) \<times> 'h) \<Rightarrow> 'h \<Rightarrow> (exn + 'b) \<times> 'h" where
  "bind_io m f h = (case m h of (Inl e, h') \<Rightarrow> (Inl e, h') | (Inr x, h') \<Rightarrow> f x h')"

text \<open>An awaited call: ask the outside, given the history, and record call and answer.\<close>

definition perform ::
  "(('e, 'm, 'v) history \<Rightarrow> exn + 'a) \<Rightarrow> (exn + 'a \<Rightarrow> ('e, 'm, 'v) call) \<Rightarrow> ('a, 'e, 'm, 'v) io" where
  "perform ask entry h = (ask h, h @ [entry (ask h)])"

subsection \<open>The coordinator\<close>

text \<open>
  Lines 36 to 50: the client and the delay. \<open>asyncio_sleep\<close> is \<^verbatim>\<open>asyncio.sleep\<close> on the
  event loop of the \<^verbatim>\<open>hass\<close> the coordinator is created with: it returns nothing, or raises
  when the task is cancelled while it waits.
\<close>

record ('e, 'm, 'v) coordinator =
  client :: "('e, 'm, 'v) PetsSeriesClient"
  delay_between_calls :: rat
  asyncio_sleep :: "rat \<Rightarrow> ('e, 'm, 'v) history \<Rightarrow> exn + unit"

text \<open>\<^verbatim>\<open>await asyncio.sleep(self.delay_between_calls)\<close>.\<close>

definition sleep :: "('e, 'm, 'v) coordinator \<Rightarrow> (unit, 'e, 'm, 'v) io" where
  "sleep self =
     perform (asyncio_sleep self (delay_between_calls self)) (Sleep (delay_between_calls self))"

text \<open>Lines 71 to 101: the loop over the event types of one home.\<close>

fun for_event_types ::
  "('e, 'm, 'v) coordinator \<Rightarrow> home \<Rightarrow> event_type list \<Rightarrow> (string \<rightharpoonup> 'e list)
    \<Rightarrow> (string \<rightharpoonup> 'e list, 'e, 'm, 'v) io" where
  "for_event_types self home [] events_by_home_and_type = return_io events_by_home_and_type"
| "for_event_types self home (event_type # rest) events_by_home_and_type =
     bind_io
       (perform (get_events (client self) home from_date to_date (py_str event_type))
          (GetEvents home from_date to_date (py_str event_type)))
       (\<lambda>home_events.
          bind_io (sleep self)
            (\<lambda>_. for_event_types self home rest
                    (events_by_home_and_type(event_key home event_type \<mapsto> home_events))))"

text \<open>
  Lines 109 to 116 and 125 to 132: the local status, or \<^verbatim>\<open>None\<close> when no local backend
  is configured.
\<close>

definition fetch_tuya_status :: "('e, 'm, 'v) coordinator \<Rightarrow> ('v pyval, 'e, 'm, 'v) io" where
  "fetch_tuya_status self =
     (if tuya_client (client self)
      then perform (get_tuya_status (client self)) GetTuyaStatus
      else return_io PyNone)"

text \<open>
  Lines 104 to 119: the loop over the devices just fetched for the home.
  \<^verbatim>\<open>get_settings\<close> is taken to answer with a mapping of its own on every call, so the
  assignment to its \<^verbatim>\<open>tuya_status\<close> key touches that device's entry only. The entry is
  stored with its \<^verbatim>\<open>tuya_status\<close> in one step, after the status is known: the dictionary
  is a local variable, lost when a call raises.
\<close>

fun for_devices ::
  "('e, 'm, 'v) coordinator \<Rightarrow> home \<Rightarrow> device list \<Rightarrow> (string \<rightharpoonup> (string \<rightharpoonup> 'v pyval))
    \<Rightarrow> (string \<rightharpoonup> (string \<rightharpoonup> 'v pyval), 'e, 'm, 'v) io" where
  "for_devices self home [] settings = return_io settings"
| "for_devices self home (device # rest) settings =
     bind_io
       (perform (get_settings (client self) home (device_id device))
          (GetSettings home (device_id device)))
       (\<lambda>device_settings.
          bind_io (fetch_tuya_status self)
            (\<lambda>tuya_status.
               bind_io (sleep self)
                 (\<lambda>_. for_devices self home rest
                         (settings(device_id device \<mapsto>
                            device_settings(''tuya_status'' \<mapsto> tuya_status))))))"

text \<open>
  The local variables of \<^verbatim>\<open>_async_update_data\<close> that the loop over the homes updates.
  \<open>base_data\<close> is \<open>None\<close> as long as the variable is unbound.
\<close>

record ('e, 'm, 'v) locals =
  devices :: "device list"
  meals :: "'m list"
  events_by_home_and_type :: "string \<rightharpoonup> 'e list"
  settings :: "string \<rightharpoonup> (string \<rightharpoonup> 'v pyval)"
  base_data :: "(string \<rightharpoonup> 'v pyval) option"

text \<open>
  Lines 63 to 135: the body of \<^verbatim>\<open>for home in homes\<close>. The calls are made in the order of
  the source; the local variables are written together at the end of the iteration, since
  nothing reads them in between and an exception discards them.
\<close>

definition home_iteration ::
  "('e, 'm, 'v) coordinator \<Rightarrow> event_type list \<Rightarrow> home \<Rightarrow> ('e, 'm, 'v) locals
    \<Rightarrow> (('e, 'm, 'v) locals, 'e, 'm, 'v) io" where
  "home_iteration self event_types home vars =
     bind_io (perform (get_devices (client self) home) (GetDevices home))
       (\<lambda>home_devices.
     bind_io (sleep self)
       (\<lambda>_.
     bind_io (for_event_types self home event_types (events_by_home_and_type vars))
       (\<lambda>events'.
     bind_io (for_devices self home home_devices (settings vars))
       (\<lambda>settings'.
     bind_io (perform (get_meals (client self) home) (GetMeals home))
       (\<lambda>home_meals.
     bind_io (fetch_tuya_status self)
       (\<lambda>tuya_status.
     bind_io (sleep self)
       (\<lambda>_.
     return_io
       \<lparr>devices = devices vars @ home_devices,
        meals = meals vars @ home_meals,
        events_by_home_and_type = events',
        settings = settings',
        base_data = Some [''tuya_status'' \<mapsto> tuya_status]\<rparr>)))))))"

fun for_homes ::
  "('e, 'm, 'v) coordinator \<Rightarrow> event_type list \<Rightarrow> home list \<Rightarrow> ('e, 'm, 'v) locals
    \<Rightarrow> (('e, 'm, 'v) locals, 'e, 'm, 'v) io" where
  "for_homes self event_types [] vars = return_io vars"
| "for_homes self event_types (home # rest) vars =
     bind_io (home_iteration self event_types home vars)
       (\<lambda>vars'. for_homes self event_types rest vars')"

text \<open>The values of the returned dictionary, one constructor per key.\<close>

datatype ('e, 'm, 'v) snapshot_value =
    HomesV "home list"
  | DevicesV "device list"
  | MealsV "'m list"
  | EventsV "string \<rightharpoonup> 'e list"
  | EventTypesV "event_type list"
  | SettingsV "string \<rightharpoonup> (string \<rightharpoonup> 'v pyval)"
  | BaseDataV "string \<rightharpoonup> 'v pyval"

type_synonym ('e, 'm, 'v) snapshot = "string \<rightharpoonup> ('e, 'm, 'v) snapshot_value"

text \<open>
  Lines 137 to 145: the dictionary display. Its last entry reads \<^verbatim>\<open>base_data\<close>, which
  raises \<^verbatim>\<open>UnboundLocalError\<close> when the loop never bound it.
\<close>

definition build_result ::
  "home list \<Rightarrow> event_type list \<Rightarrow> ('e, 'm, 'v) locals \<Rightarrow> (('e, 'm, 'v) snapshot, 'e, 'm, 'v) io" where
  "build_result homes event_types vars =
     (case base_data vars of
        None \<Rightarrow> raise_io (UnboundLocalError ''base_data'')
      | Some bd \<Rightarrow>
          return_io
            [''homes'' \<mapsto> HomesV homes,
             ''devices'' \<mapsto> DevicesV (devices vars),
             ''meals'' \<mapsto> MealsV (meals vars),
             ''events_by_home_and_type'' \<mapsto> EventsV (events_by_home_and_type vars),
             ''event_types'' \<mapsto> EventTypesV event_types,
             ''settings'' \<mapsto> SettingsV (settings vars),
             ''base_data'' \<mapsto> BaseDataV bd])"

text \<open>Lines 55 to 145: the body of the \<^verbatim>\<open>try\<close> statement.\<close>

definition try_body :: "('e, 'm, 'v) coordinator \<Rightarrow> (('e, 'm, 'v) snapshot, 'e, 'm, 'v) io" where
  "try_body self =
     bind_io (perform (get_homes (client self)) GetHomes)
       (\<lambda>homes.
          bind_io
            (for_homes self (get_event_types (client self)) homes
               \<lparr>devices = [], meals = [], events_by_home_and_type = Map.empty,
                settings = Map.empty, base_data = None\<rparr>)
            (build_result homes (get_event_types (client self))))"

text \<open>
  Lines 52 to 148: \<^verbatim>\<open>_async_update_data\<close>, the \<^verbatim>\<open>try\<close> with its \<^verbatim>\<open>except Exception\<close>. What is
  not an instance of \<^verbatim>\<open>Exception\<close> passes the handler as it was raised.
\<close>

definition async_update_data ::
  "('e, 'm, 'v) coordinator \<Rightarrow> (('e, 'm, 'v) snapshot, 'e, 'm, 'v) io" where
  "async_update_data self h =
     (case try_body self h of
        (Inl err, h') \<Rightarrow>
          if is_Exception err
          then (Inl (UpdateFailed (''Error communicating with API: '' @ str_exn err) err), h')
          else (Inl err, h')
      | (Inr data, h') \<Rightarrow> (Inr data, h'))"

subsection \<open>Setup and teardown\<close>

text \<open>A value of the configuration entry's \<^verbatim>\<open>data\<close> mapping, and its truth value.\<close>

datatype config_value = ConfNone | ConfStr string | ConfNum rat

fun truthy :: "config_value \<Rightarrow> bool" where
  "truthy ConfNone = False"
| "truthy (ConfStr s) = (s \<noteq> [])"
| "truthy (ConfNum x) = (x \<noteq> 0)"

record config_entry =
  entry_id :: string
  entry_data :: "string \<rightharpoonup> config_value"

text \<open>\<^verbatim>\<open>data.get(key, default)\<close>.\<close>

definition dict_get :: "(string \<rightharpoonup> config_value) \<Rightarrow> string \<Rightarrow> config_value \<Rightarrow> config_value" where
  "dict_get d key dflt = (case d key of None \<Rightarrow> dflt | Some v \<Rightarrow> v)"

record tuya_credentials =
  cred_client_id :: config_value
  cred_ip :: config_value
  cred_local_key :: config_value
  cred_version :: config_value

text \<open>
  Lines 158 to 168: the credentials of the local backend, when the three keys are present
  with true values.
\<close>

definition extract_tuya_credentials :: "(string \<rightharpoonup> config_value) \<Rightarrow> tuya_credentials option" where
  "extract_tuya_credentials d =
     (case (d ''tuya_client_id'', d ''tuya_ip'', d ''tuya_local_key'') of
        (Some cid, Some ip, Some key) \<Rightarrow>
          if truthy cid \<and> truthy ip \<and> truthy key
          then Some \<lparr>cred_client_id = cid, cred_ip = ip, cred_local_key = key,
                      cred_version = dict_get d ''tuya_version'' (ConfNum (34 / 10))\<rparr>
          else None
      | _ \<Rightarrow> None)"

text \<open>\<^verbatim>\<open>needle in haystack\<close> on strings.\<close>

fun py_in :: "string \<Rightarrow> string \<Rightarrow> bool" where
  "py_in needle [] = (needle = [])"
| "py_in needle (c # cs) = (take (length needle) (c # cs) = needle \<or> py_in needle cs)"

text \<open>What \<^verbatim>\<open>hass.data[DOMAIN][entry.entry_id]\<close> holds after setup.\<close>

record ('e, 'm, 'v) runtime_data =
  stored_client :: "('e, 'm, 'v) PetsSeriesClient"
  stored_coordinator :: "('e, 'm, 'v) coordinator"

type_synonym ('e, 'm, 'v) hass_data = "string \<rightharpoonup> (string \<rightharpoonup> ('e, 'm, 'v) runtime_data)"

text \<open>
  What the module uses and this repository's source does not hold: the constant
  \<^verbatim>\<open>DOMAIN\<close>, the constructor of the client, \<^verbatim>\<open>asyncio.sleep\<close> on the event loop, and three
  operations of the host platform. \<open>async_config_entry_first_refresh\<close> is a method of the
  coordinator's base class; it is given the coordinator's \<^verbatim>\<open>_async_update_data\<close> to run.
\<close>

record ('e, 'm, 'v) host =
  DOMAIN :: string
  new_client ::
    "config_value \<Rightarrow> config_value \<Rightarrow> tuya_credentials option \<Rightarrow> ('e, 'm, 'v) PetsSeriesClient"
  async_config_entry_first_refresh ::
    "(('e, 'm, 'v) snapshot, 'e, 'm, 'v) io \<Rightarrow> (unit, 'e, 'm, 'v) io"
  async_forward_entry_setups ::
    "config_entry \<Rightarrow> platform list \<Rightarrow> ('e, 'm, 'v) history \<Rightarrow> exn + unit"
  async_unload_platforms ::
    "config_entry \<Rightarrow> platform list \<Rightarrow> ('e, 'm, 'v) history \<Rightarrow> exn + bool"
  event_loop_sleep :: "rat \<Rightarrow> ('e, 'm, 'v) history \<Rightarrow> exn + unit"

text \<open>Lines 153 to 174: the client built from the configuration entry.\<close>

definition make_client :: "('e, 'm, 'v) host \<Rightarrow> config_entry \<Rightarrow> ('e, 'm, 'v) PetsSeriesClient" where
  "make_client hass entry =
     (let d = entry_data entry;
          access_token = dict_get d ''access_token'' ConfNone;
          refresh_token = dict_get d ''refresh_token'' ConfNone;
          tuya_creds = extract_tuya_credentials d
      in new_client hass access_token refresh_token tuya_creds)"

text \<open>
  Lines 151 to 203: \<^verbatim>\<open>async_setup_entry\<close>. The state is \<^verbatim>\<open>hass.data\<close> and the history;
  both are returned, also when the function raises. The handler of lines 177 to 185 is an
  \<^verbatim>\<open>except Exception\<close> too.
\<close>

definition async_setup_entry ::
  "('e, 'm, 'v) host \<Rightarrow> config_entry \<Rightarrow> ('e, 'm, 'v) hass_data \<Rightarrow> ('e, 'm, 'v) history
    \<Rightarrow> (exn + bool) \<times> ('e, 'm, 'v) hass_data \<times> ('e, 'm, 'v) history" where
  "async_setup_entry hass entry hass_data h =
     (let cl = make_client hass entry
      in case perform (initialize cl) Initialize h of
           (Inl e, h1) \<Rightarrow>
             if \<not> is_Exception e then (Inl e, hass_data, h1)
             else if py_in ''invalid_client'' (str_exn e)
             then (Inl (ConfigEntryAuthFailed
                          ''Invalid client credentials. Please re-authenticate.'' e),
                   hass_data, h1)
             else (Inr False, hass_data, h1)
         | (Inr _, h1) \<Rightarrow>
             let coord = \<lparr>client = cl, delay_between_calls = 1 / 2,
                          asyncio_sleep = event_loop_sleep hass\<rparr>
             in case async_config_entry_first_refresh hass (async_update_data coord) h1 of
                  (Inl e, h2) \<Rightarrow> (Inl e, hass_data, h2)
                | (Inr _, h2) \<Rightarrow>
                    let per_domain =
                          (case hass_data (DOMAIN hass) of None \<Rightarrow> Map.empty | Some m \<Rightarrow> m);
                        hass_data' =
                          hass_data(DOMAIN hass \<mapsto>
                            per_domain(entry_id entry \<mapsto>
                              \<lparr>stored_client = cl, stored_coordinator = coord\<rparr>))
                    in case perform (async_forward_entry_setups hass entry PLATFORMS)
                              (ForwardEntrySetups (entry_id entry) PLATFORMS) h2 of
                         (Inl e, h3) \<Rightarrow> (Inl e, hass_data', h3)
                       | (Inr _, h3) \<Rightarrow> (Inr True, hass_data', h3))"

text \<open>
  Lines 206 to 213: \<^verbatim>\<open>async_unload_entry\<close>. The two subscripts of line 209 raise
  \<^verbatim>\<open>KeyError\<close> when nothing is stored for the domain or the entry.
\<close>

definition async_unload_entry ::
  "('e, 'm, 'v) host \<Rightarrow> config_entry \<Rightarrow> ('e, 'm, 'v) hass_data \<Rightarrow> ('e, 'm, 'v) history
    \<Rightarrow> (exn + bool) \<times> ('e, 'm, 'v) hass_data \<times> ('e, 'm, 'v) history" where
  "async_unload_entry hass entry hass_data h =
     (case perform (async_unload_platforms hass entry PLATFORMS)
             (UnloadPlatforms (entry_id entry) PLATFORMS) h of
        (Inl e, h1) \<Rightarrow> (Inl e, hass_data, h1)
      | (Inr unload_ok, h1) \<Rightarrow>
          if unload_ok
          then (case hass_data (DOMAIN hass) of
                  None \<Rightarrow> (Inl (KeyError (DOMAIN hass)), hass_data, h1)
                | Some per_domain \<Rightarrow>
                    (case per_domain (entry_id entry) of
                       None \<Rightarrow> (Inl (KeyError (entry_id entry)), hass_data, h1)
                     | Some stored \<Rightarrow>
                         (case perform (close (stored_client stored)) Close h1 of
                            (Inl e, h2) \<Rightarrow> (Inl e, hass_data, h2)
                          | (Inr _, h2) \<Rightarrow>
                              (Inr unload_ok,
                               hass_data(DOMAIN hass \<mapsto> per_domain(entry_id entry := None)),
                               h2))))
          else (Inr unload_ok, hass_data, h1))"

subsection \<open>Reading a history\<close>

text \<open>
  The exception a recorded call raised, if it raised one, and the exceptions of a whole
  history in the order they were raised.
\<close>

definition raised :: "exn + 'a \<Rightarrow> exn list" where
  "raised r = (case r of Inl e \<Rightarrow> [e] | Inr _ \<Rightarrow> [])"

fun call_failure :: "('e, 'm, 'v) call \<Rightarrow> exn list" where
  "call_failure (GetHomes r) = raised r"
| "call_failure (GetDevices home r) = raised r"
| "call_failure (GetEvents home f t types r) = raised r"
| "call_failure (GetSettings home d r) = raised r"
| "call_failure (GetTuyaStatus r) = raised r"
| "call_failure (GetMeals home r) = raised r"
| "call_failure (Sleep d r) = raised r"
| "call_failure (Initialize r) = raised r"
| "call_failure (Close r) = raised r"
| "call_failure (ForwardEntrySetups e p r) = raised r"
| "call_failure (UnloadPlatforms e p r) = raised r"

definition failures :: "('e, 'm, 'v) history \<Rightarrow> exn list" where
  "failures tr = concat (map call_failure tr)"


text \<open>
  An action appends calls of a kind \<open>P\<close> when it leaves the history it was given in place
  and every call it adds satisfies \<open>P\<close>.
\<close>

definition appends :: "(('e, 'm, 'v) call \<Rightarrow> bool) \<Rightarrow> ('a, 'e, 'm, 'v) io \<Rightarrow> bool" where
  "appends P m \<longleftrightarrow> (\<forall>h r h'. m h = (r, h') \<longrightarrow> (\<exists>tr. h' = h @ tr \<and> list_all P tr))"

text \<open>
  The device lists that \<^verbatim>\<open>get_devices\<close> returned, each with the home it was asked for, in
  the order of the calls.
\<close>

fun device_fetch :: "('e, 'm, 'v) call \<Rightarrow> (home \<times> device list) list" where
  "device_fetch (GetDevices home (Inr ds)) = [(home, ds)]"
| "device_fetch _ = []"

definition device_fetches :: "('e, 'm, 'v) history \<Rightarrow> (home \<times> device list) list" where
  "device_fetches tr = concat (map device_fetch tr)"

text \<open>The meal lists that \<^verbatim>\<open>get_meals\<close> returned, each with the home it was asked for.\<close>

fun meal_fetch :: "('e, 'm, 'v) call \<Rightarrow> (home \<times> 'm list) list" where
  "meal_fetch (GetMeals home (Inr ms)) = [(home, ms)]"
| "meal_fetch _ = []"

definition meal_fetches :: "('e, 'm, 'v) history \<Rightarrow> (home \<times> 'm list) list" where
  "meal_fetches tr = concat (map meal_fetch tr)"

text \<open>
  The event lists that \<^verbatim>\<open>get_events\<close> returned, each with the arguments of the call: home,
  \<^verbatim>\<open>from_date\<close>, \<^verbatim>\<open>to_date\<close> and \<^verbatim>\<open>types\<close>.
\<close>

fun event_fetch ::
  "('e, 'm, 'v) call \<Rightarrow> (home \<times> datetime \<times> datetime \<times> string \<times> 'e list) list" where
  "event_fetch (GetEvents home f t types (Inr evs)) = [(home, f, t, types, evs)]"
| "event_fetch _ = []"

definition event_fetches ::
  "('e, 'm, 'v) history \<Rightarrow> (home \<times> datetime \<times> datetime \<times> string \<times> 'e list) list" where
  "event_fetches tr = concat (map event_fetch tr)"

text \<open>
  The (home, event type) pairs in the order the two nested loops visit them, the key of a
  pair, and the call made for it when it returns \<open>evs\<close>.
\<close>

definition visits :: "home list \<Rightarrow> event_type list \<Rightarrow> (home \<times> event_type) list" where
  "visits homes event_types = concat (map (\<lambda>home. map (Pair home) event_types) homes)"

fun visit_key :: "home \<times> event_type \<Rightarrow> string" where
  "visit_key (home, event_type) = event_key home event_type"





text \<open>
  The state of the local variables when no local backend is configured: one settings entry
  per device fetched so far, each with \<^verbatim>\<open>tuya_status\<close> set to \<^verbatim>\<open>None\<close>, and a \<^verbatim>\<open>base_data\<close> that
  holds this one key with \<^verbatim>\<open>None\<close>, once it is bound.
\<close>

definition without_local_status :: "('e, 'm, 'v) locals \<Rightarrow> bool" where
  "without_local_status vars \<longleftrightarrow>
     dom (settings vars) = device_id ` set (devices vars) \<and>
     (\<forall>d entry. settings vars d = Some entry \<longrightarrow> entry ''tuya_status'' = Some PyNone) \<and>
     (\<forall>bd. base_data vars = Some bd \<longrightarrow> bd = [''tuya_status'' \<mapsto> PyNone])"

subsection \<open>Example installations\<close>

text \<open>
  Two homes, three devices, two event types, the local backend configured. Every answer
  depends on how many calls were made before, so no two answers are the same.
\<close>

definition homeA :: home where
  "homeA = \<lparr>home_id = ''A'', home_name = ''first''\<rparr>"

definition homeB :: home where
  "homeB = \<lparr>home_id = ''B'', home_name = ''second''\<rparr>"

definition dev1 :: device where
  "dev1 = \<lparr>device_id = ''d1'', device_name = ''feeder''\<rparr>"

definition dev2 :: device where
  "dev2 = \<lparr>device_id = ''d2'', device_name = ''camera''\<rparr>"

definition dev3 :: device where
  "dev3 = \<lparr>device_id = ''d3'', device_name = ''feeder''\<rparr>"

definition ex_client :: "(nat, nat, nat) PetsSeriesClient" where
  "ex_client =
     \<lparr>get_homes = (\<lambda>h. Inr [homeA, homeB]),
      get_devices = (\<lambda>home h. Inr (if home_id home = ''A'' then [dev1, dev2] else [dev3])),
      get_events = (\<lambda>home f t types h. Inr (if types = ''meal_dispensed'' then [] else [length h])),
      get_settings = (\<lambda>home d h. Inr [''name'' \<mapsto> Val (length h)]),
      get_meals = (\<lambda>home h. Inr [length h]),
      tuya_client = True,
      get_tuya_status = (\<lambda>h. Inr (Val (length h))),
      get_event_types =
        [ValueType ''EventType.MOTION_DETECTED'' ''motion_detected'', StrType ''meal_dispensed''],
      initialize = (\<lambda>h. Inr ()),
      close = (\<lambda>h. Inr ())\<rparr>"

definition ex_coord :: "(nat, nat, nat) coordinator" where
  "ex_coord =
     \<lparr>client = ex_client, delay_between_calls = 1 / 2, asyncio_sleep = (\<lambda>d h. Inr ())\<rparr>"

text \<open>The same installation without the local backend.\<close>

definition ex_coord_no_tuya :: "(nat, nat, nat) coordinator" where
  "ex_coord_no_tuya = ex_coord\<lparr>client := ex_client\<lparr>tuya_client := False\<rparr>\<rparr>"

text \<open>An account without homes.\<close>

definition no_homes_coord :: "(nat, nat, nat) coordinator" where
  "no_homes_coord = ex_coord\<lparr>client := ex_client\<lparr>get_homes := (\<lambda>h. Inr [])\<rparr>\<rparr>"

text \<open>The remote side rejects the credentials when the homes are listed.\<close>

definition rejected_coord :: "(nat, nat, nat) coordinator" where
  "rejected_coord =
     ex_coord\<lparr>client :=
       ex_client\<lparr>get_homes := (\<lambda>h. Inl (Exception ''invalid_client: bad credentials''))\<rparr>\<rparr>"

text \<open>
  A host platform: the first refresh runs the update once and raises what it raises,
  forwarding the platforms works, unloading them answers \<open>unload_ok\<close>. The client it
  constructs fails to initialise with \<open>init_error\<close>, if one is given.
\<close>

definition ex_host :: "exn option \<Rightarrow> bool \<Rightarrow> (nat, nat, nat) host" where
  "ex_host init_error unload_ok =
     \<lparr>DOMAIN = ''philips_pets_series'',
      new_client = (\<lambda>access_token refresh_token creds.
        ex_client\<lparr>tuya_client := (creds \<noteq> None),
                  initialize := (\<lambda>h. case init_error of None \<Rightarrow> Inr () | Some e \<Rightarrow> Inl e)\<rparr>),
      async_config_entry_first_refresh = (\<lambda>update h.
        case update h of (Inl e, h') \<Rightarrow> (Inl e, h') | (Inr _, h') \<Rightarrow> (Inr (), h')),
      async_forward_entry_setups = (\<lambda>entry platforms h. Inr ()),
      async_unload_platforms = (\<lambda>entry platforms h. Inr unload_ok),
      event_loop_sleep = (\<lambda>d h. Inr ())\<rparr>"

definition ex_entry :: config_entry where
  "ex_entry =
     \<lparr>entry_id = ''entry1'',
      entry_data = [''access_token'' \<mapsto> ConfStr ''at'', ''refresh_token'' \<mapsto> ConfStr ''rt'']\<rparr>"

text \<open>\<^verbatim>\<open>hass.data\<close> after a setup of \<open>ex_entry\<close>.\<close>

definition ex_hass_data :: "(nat, nat, nat) hass_data" where
  "ex_hass_data =
     [''philips_pets_series'' \<mapsto>
        [''entry1'' \<mapsto> \<lparr>stored_client = ex_client, stored_coordinator = ex_coord\<rparr>]]"


section \<open>Properties\<close>

subsection \<open>Every action records the exception it raises\<close>

lemma failures_simps [simp]:
  "failures [] = []"
  "failures (c # tr) = call_failure c @ failures tr"
  "failures (tr @ tr') = failures tr @ failures tr'"
  by (simp_all add: failures_def)

lemma raised_simps [simp]: "raised (Inl e) = [e]" "raised (Inr x) = []"
  by (simp_all add: raised_def)











subsection \<open>What a successful run went through\<close>

lemma bind_io_InrE:
  assumes "bind_io m f h = (Inr y, h')"
  obtains x h1 where "m h = (Inr x, h1)" "f x h1 = (Inr y, h')"
  using assms by (auto simp: bind_io_def split: prod.splits sum.splits)

lemma perform_Inr_iff:
  "perform ask entry h = (Inr x, h') \<longleftrightarrow> ask h = Inr x \<and> h' = h @ [entry (Inr x)]"
  by (auto simp: perform_def)

lemma sleep_iff:
  "sleep self h = (Inr u, h') \<longleftrightarrow>
     asyncio_sleep self (delay_between_calls self) h = Inr () \<and>
     h' = h @ [Sleep (delay_between_calls self) (Inr ())]"
  by (auto simp: sleep_def perform_def)

lemma return_io_iff: "return_io x h = (r, h') \<longleftrightarrow> r = Inr x \<and> h' = h"
  by (auto simp: return_io_def)

lemma fetch_tuya_status_Inr:
  assumes "fetch_tuya_status self h = (Inr ts, h')"
  shows "h' = h @ (if tuya_client (client self) then [GetTuyaStatus (Inr ts)] else []) \<and>
         (tuya_client (client self) \<or> ts = PyNone)"
  using assms by (auto simp: fetch_tuya_status_def perform_Inr_iff return_io_iff split: if_splits)

lemma home_iteration_InrE:
  assumes "home_iteration self ets home vars h = (Inr vars', h')"
  obtains ds ev h2 st h3 ms ts where
    "get_devices (client self) home h = Inr ds"
    "for_event_types self home ets (events_by_home_and_type vars)
       (h @ [GetDevices home (Inr ds), Sleep (delay_between_calls self) (Inr ())]) = (Inr ev, h2)"
    "for_devices self home ds (settings vars) h2 = (Inr st, h3)"
    "get_meals (client self) home h3 = Inr ms"
    "tuya_client (client self) \<or> ts = PyNone"
    "h' = h3 @ GetMeals home (Inr ms)
            # (if tuya_client (client self) then [GetTuyaStatus (Inr ts)] else [])
            @ [Sleep (delay_between_calls self) (Inr ())]"
    "vars' = \<lparr>devices = devices vars @ ds, meals = meals vars @ ms,
              events_by_home_and_type = ev, settings = st,
              base_data = Some [''tuya_status'' \<mapsto> ts]\<rparr>"
proof -
  let ?d = "delay_between_calls self"
  from assms obtain ds h1 u h1' ev h2 st h3 ms h4 ts h5 u' h6 where
    run: "perform (get_devices (client self) home) (GetDevices home) h = (Inr ds, h1)"
      "sleep self h1 = (Inr u, h1')"
      "for_event_types self home ets (events_by_home_and_type vars) h1' = (Inr ev, h2)"
      "for_devices self home ds (settings vars) h2 = (Inr st, h3)"
      "perform (get_meals (client self) home) (GetMeals home) h3 = (Inr ms, h4)"
      "fetch_tuya_status self h4 = (Inr ts, h5)"
      "sleep self h5 = (Inr u', h6)"
      "return_io \<lparr>devices = devices vars @ ds, meals = meals vars @ ms,
                   events_by_home_and_type = ev, settings = st,
                   base_data = Some [''tuya_status'' \<mapsto> ts]\<rparr> h6 = (Inr vars', h')"
    unfolding home_iteration_def by (elim bind_io_InrE) blast
  from run(1) have g1: "get_devices (client self) home h = Inr ds"
    and h1: "h1 = h @ [GetDevices home (Inr ds)]"
    by (simp_all add: perform_Inr_iff)
  from run(2) h1 have h1': "h1' = h @ [GetDevices home (Inr ds), Sleep ?d (Inr ())]"
    by (simp add: sleep_iff)
  from run(5) have g5: "get_meals (client self) home h3 = Inr ms"
    and h4: "h4 = h3 @ [GetMeals home (Inr ms)]"
    by (simp_all add: perform_Inr_iff)
  from fetch_tuya_status_Inr [OF run(6)]
  have h5: "h5 = h4 @ (if tuya_client (client self) then [GetTuyaStatus (Inr ts)] else [])"
    and ts: "tuya_client (client self) \<or> ts = PyNone"
    by simp_all
  from run(7) have h6: "h6 = h5 @ [Sleep ?d (Inr ())]"
    by (simp add: sleep_iff)
  from run(8) have vars': "vars' = \<lparr>devices = devices vars @ ds, meals = meals vars @ ms,
              events_by_home_and_type = ev, settings = st,
              base_data = Some [''tuya_status'' \<mapsto> ts]\<rparr>"
    and h': "h' = h6"
    by (simp_all add: return_io_iff)
  show thesis
  proof (rule that [of ds ev h2 st h3 ms ts])
    show "for_event_types self home ets (events_by_home_and_type vars)
            (h @ [GetDevices home (Inr ds), Sleep ?d (Inr ())]) = (Inr ev, h2)"
      using run(3) h1' by simp
    show "h' = h3 @ GetMeals home (Inr ms)
            # (if tuya_client (client self) then [GetTuyaStatus (Inr ts)] else [])
            @ [Sleep ?d (Inr ())]"
      using h' h6 h5 h4 by simp
  qed (fact g1 run(4) g5 ts vars')+
qed

lemma async_update_data_InrE:
  assumes "async_update_data self h = (Inr data, h')"
  obtains homes vars bd where
    "get_homes (client self) h = Inr homes"
    "for_homes self (get_event_types (client self)) homes
       \<lparr>devices = [], meals = [], events_by_home_and_type = Map.empty,
        settings = Map.empty, base_data = None\<rparr> (h @ [GetHomes (Inr homes)]) = (Inr vars, h')"
    "base_data vars = Some bd"
    "data = [''homes'' \<mapsto> HomesV homes,
             ''devices'' \<mapsto> DevicesV (devices vars),
             ''meals'' \<mapsto> MealsV (meals vars),
             ''events_by_home_and_type'' \<mapsto> EventsV (events_by_home_and_type vars),
             ''event_types'' \<mapsto> EventTypesV (get_event_types (client self)),
             ''settings'' \<mapsto> SettingsV (settings vars),
             ''base_data'' \<mapsto> BaseDataV bd]"
proof -
  from assms have "try_body self h = (Inr data, h')"
    by (simp add: async_update_data_def split: prod.splits sum.splits if_splits)
  then show thesis
    unfolding try_body_def build_result_def
    by (elim bind_io_InrE)
       (auto simp: perform_Inr_iff return_io_iff raise_io_def split: option.splits intro: that)
qed

subsection \<open>Actions only append\<close>

lemma appendsD:
  assumes "appends P m" "m h = (r, h')"
  obtains tr where "h' = h @ tr" "list_all P tr"
  using assms unfolding appends_def by blast

lemma appends_return: "appends P (return_io x)"
  by (simp add: appends_def return_io_def)

lemma appends_perform: "(\<And>r. P (entry r)) \<Longrightarrow> appends P (perform ask entry)"
  by (simp add: appends_def perform_def)

lemma appends_sleep: "(\<And>d r. P (Sleep d r)) \<Longrightarrow> appends P (sleep self)"
  by (simp add: sleep_def appends_perform)

lemma appends_bind:
  assumes m: "appends P m" and f: "\<And>x. appends P (f x)"
  shows "appends P (bind_io m f)"
  unfolding appends_def
proof (intro allI impI)
  fix h r h'
  assume run: "bind_io m f h = (r, h')"
  obtain r1 h1 where m1: "m h = (r1, h1)" by (cases "m h")
  from appendsD [OF m m1] obtain tr1 where tr1: "h1 = h @ tr1" "list_all P tr1" .
  show "\<exists>tr. h' = h @ tr \<and> list_all P tr"
  proof (cases r1)
    case (Inl e)
    with run m1 have "h' = h1" by (simp add: bind_io_def)
    with tr1 show ?thesis by blast
  next
    case (Inr x)
    with run m1 have "f x h1 = (r, h')" by (simp add: bind_io_def)
    from appendsD [OF f this] obtain tr2 where "h' = h1 @ tr2" "list_all P tr2" .
    with tr1 have "h' = h @ (tr1 @ tr2) \<and> list_all P (tr1 @ tr2)" by simp
    then show ?thesis by blast
  qed
qed

lemma appends_fetch_tuya_status:
  "(\<And>r. P (GetTuyaStatus r)) \<Longrightarrow> appends P (fetch_tuya_status self)"
  by (simp add: fetch_tuya_status_def appends_return appends_perform)

lemma appends_for_event_types:
  assumes "\<And>f t types r. P (GetEvents home f t types r)" "\<And>d r. P (Sleep d r)"
  shows "appends P (for_event_types self home ets ev)"
  by (induction ets arbitrary: ev)
     (simp_all add: appends_return appends_bind appends_perform appends_sleep assms)

lemma appends_for_devices:
  assumes "\<And>d r. P (GetSettings home d r)" "\<And>r. P (GetTuyaStatus r)" "\<And>d r. P (Sleep d r)"
  shows "appends P (for_devices self home ds st)"
  by (induction ds arbitrary: st)
     (simp_all add: appends_return appends_bind appends_perform appends_sleep
        appends_fetch_tuya_status assms)

lemma appends_home_iteration: "appends (\<lambda>c. True) (home_iteration self ets home vars)"
  unfolding home_iteration_def
  by (intro appends_bind appends_perform appends_sleep appends_return
        appends_for_event_types appends_for_devices appends_fetch_tuya_status) simp_all

subsection \<open>The fetches of a history\<close>

lemma device_fetches_simps [simp]:
  "device_fetches [] = []"
  "device_fetches (c # tr) = device_fetch c @ device_fetches tr"
  "device_fetches (tr @ tr') = device_fetches tr @ device_fetches tr'"
  by (simp_all add: device_fetches_def)

lemma event_fetches_simps [simp]:
  "event_fetches [] = []"
  "event_fetches (c # tr) = event_fetch c @ event_fetches tr"
  "event_fetches (tr @ tr') = event_fetches tr @ event_fetches tr'"
  by (simp_all add: event_fetches_def)

lemma meal_fetches_simps [simp]:
  "meal_fetches [] = []"
  "meal_fetches (c # tr) = meal_fetch c @ meal_fetches tr"
  "meal_fetches (tr @ tr') = meal_fetches tr @ meal_fetches tr'"
  by (simp_all add: meal_fetches_def)


lemma no_device_fetches: "list_all (\<lambda>c. device_fetch c = []) tr \<Longrightarrow> device_fetches tr = []"
  by (induction tr) simp_all


subsection \<open>One round of a loop\<close>

lemma for_homes_ConsE:
  assumes "for_homes self ets (home # rest) vars h = (Inr vars', h')"
  obtains vars1 h1 where
    "home_iteration self ets home vars h = (Inr vars1, h1)"
    "for_homes self ets rest vars1 h1 = (Inr vars', h')"
proof -
  from assms have "bind_io (home_iteration self ets home vars)
       (\<lambda>vars'. for_homes self ets rest vars') h = (Inr vars', h')" by simp
  then show thesis by (rule bind_io_InrE) (rule that)
qed

lemma for_devices_ConsE:
  assumes "for_devices self home (device # rest) st h = (Inr st', h')"
  obtains s ts h1 where
    "get_settings (client self) home (device_id device) h = Inr s"
    "tuya_client (client self) \<or> ts = PyNone"
    "for_devices self home rest (st(device_id device \<mapsto> s(''tuya_status'' \<mapsto> ts))) h1
       = (Inr st', h')"
proof -
  let ?d = "delay_between_calls self"
  from assms have "bind_io
       (perform (get_settings (client self) home (device_id device))
          (GetSettings home (device_id device)))
       (\<lambda>device_settings.
          bind_io (fetch_tuya_status self)
            (\<lambda>tuya_status.
               bind_io (sleep self)
                 (\<lambda>_. for_devices self home rest
                         (st(device_id device \<mapsto>
                            device_settings(''tuya_status'' \<mapsto> tuya_status)))))) h = (Inr st', h')"
    by simp
  then obtain s h0 ts h0' u h1 where
    run: "perform (get_settings (client self) home (device_id device))
          (GetSettings home (device_id device)) h = (Inr s, h0)"
      "fetch_tuya_status self h0 = (Inr ts, h0')"
      "sleep self h0' = (Inr u, h1)"
      "for_devices self home rest (st(device_id device \<mapsto> s(''tuya_status'' \<mapsto> ts))) h1
         = (Inr st', h')"
    by (elim bind_io_InrE) blast
  from run(1) have "get_settings (client self) home (device_id device) h = Inr s"
    by (simp add: perform_Inr_iff)
  moreover from fetch_tuya_status_Inr [OF run(2)] have "tuya_client (client self) \<or> ts = PyNone"
    by simp
  ultimately show thesis using run(4) by (rule that)
qed

subsection \<open>What the loops gather: devices\<close>

lemma home_iteration_devices:
  assumes "home_iteration self ets home vars h = (Inr vars', h')"
  obtains ds tr where "h' = h @ tr" "device_fetches tr = [(home, ds)]"
    "devices vars' = devices vars @ ds"
proof -
  let ?d = "delay_between_calls self"
  from assms obtain ds ev h2 st h3 ms ts where
    run: "for_event_types self home ets (events_by_home_and_type vars)
            (h @ [GetDevices home (Inr ds), Sleep ?d (Inr ())]) = (Inr ev, h2)"
      "for_devices self home ds (settings vars) h2 = (Inr st, h3)"
      "h' = h3 @ GetMeals home (Inr ms)
              # (if tuya_client (client self) then [GetTuyaStatus (Inr ts)] else []) @ [Sleep ?d (Inr ())]"
      "vars' = \<lparr>devices = devices vars @ ds, meals = meals vars @ ms,
                events_by_home_and_type = ev, settings = st,
                base_data = Some [''tuya_status'' \<mapsto> ts]\<rparr>"
    by (rule home_iteration_InrE)
  have "appends (\<lambda>c. device_fetch c = [])
          (for_event_types self home ets (events_by_home_and_type vars))"
    by (rule appends_for_event_types) simp_all
  from appendsD [OF this run(1)] obtain t2 where
    "h2 = (h @ [GetDevices home (Inr ds), Sleep ?d (Inr ())]) @ t2" "list_all (\<lambda>c. device_fetch c = []) t2" .
  then have t2: "h2 = (h @ [GetDevices home (Inr ds), Sleep ?d (Inr ())]) @ t2" "device_fetches t2 = []"
    by (simp_all add: no_device_fetches)
  have "appends (\<lambda>c. device_fetch c = []) (for_devices self home ds (settings vars))"
    by (rule appends_for_devices) simp_all
  from appendsD [OF this run(2)] obtain t3 where
    "h3 = h2 @ t3" "list_all (\<lambda>c. device_fetch c = []) t3" .
  then have t3: "h3 = h2 @ t3" "device_fetches t3 = []"
    by (simp_all add: no_device_fetches)
  let ?tr = "[GetDevices home (Inr ds), Sleep ?d (Inr ())] @ t2 @ t3 @ GetMeals home (Inr ms)
              # (if tuya_client (client self) then [GetTuyaStatus (Inr ts)] else []) @ [Sleep ?d (Inr ())]"
  have "h' = h @ ?tr" using run(3) t2 t3 by simp
  moreover have "device_fetches ?tr = [(home, ds)]" using t2 t3 by simp
  moreover have "devices vars' = devices vars @ ds" using run(4) by simp
  ultimately show thesis by (rule that)
qed

lemma for_homes_devices:
  "for_homes self ets homes vars h = (Inr vars', h') \<Longrightarrow>
   \<exists>tr. h' = h @ tr \<and> map fst (device_fetches tr) = homes \<and>
              devices vars' = devices vars @ concat (map snd (device_fetches tr))"
proof (induction homes arbitrary: vars h)
  case Nil
  then have "h' = h @ [] \<and> map fst (device_fetches ([] :: ('a, 'b, 'c) history)) = [] \<and>
      devices vars' = devices vars @ concat (map snd (device_fetches ([] :: ('a, 'b, 'c) history)))"
    by (simp add: return_io_iff)
  then show ?case by (intro exI [of _ "[]"])
next
  case (Cons home rest)
  from Cons.prems obtain vars1 h1 where
    first: "home_iteration self ets home vars h = (Inr vars1, h1)" and
    others: "for_homes self ets rest vars1 h1 = (Inr vars', h')"
    by (rule for_homes_ConsE)
  from first obtain ds t1 where
    t1: "h1 = h @ t1" "device_fetches t1 = [(home, ds)]" "devices vars1 = devices vars @ ds"
    by (rule home_iteration_devices)
  from Cons.IH [OF others] obtain t2 where
    t2: "h' = h1 @ t2" "map fst (device_fetches t2) = rest"
      "devices vars' = devices vars1 @ concat (map snd (device_fetches t2))"
    by blast
  from t1 t2 have "h' = h @ (t1 @ t2) \<and> map fst (device_fetches (t1 @ t2)) = home # rest \<and>
      devices vars' = devices vars @ concat (map snd (device_fetches (t1 @ t2)))"
    by simp
  then show ?case by (intro exI [of _ "t1 @ t2"])
qed


subsection \<open>What the loops gather: meals\<close>



subsection \<open>What the loops gather: settings\<close>






subsection \<open>What the loops gather: events\<close>









lemma visits_simps [simp]:
  "visits [] ets = []"
  "visits (home # rest) ets = map (Pair home) ets @ visits rest ets"
  by (simp_all add: visits_def)


subsection \<open>What the loops gather: base_data\<close>

lemma home_iteration_ends:
  assumes "home_iteration self ets home vars h = (Inr vars', h')"
  obtains pre ms ts where
    "h' = h @ pre @ GetMeals home (Inr ms)
            # (if tuya_client (client self) then [GetTuyaStatus (Inr ts)] else [])
            @ [Sleep (delay_between_calls self) (Inr ())]"
    "tuya_client (client self) \<or> ts = PyNone"
    "base_data vars' = Some [''tuya_status'' \<mapsto> ts]"
proof -
  let ?d = "delay_between_calls self"
  from assms obtain ds ev h2 st h3 ms ts where
    run: "for_event_types self home ets (events_by_home_and_type vars)
            (h @ [GetDevices home (Inr ds), Sleep ?d (Inr ())]) = (Inr ev, h2)"
      "for_devices self home ds (settings vars) h2 = (Inr st, h3)"
      "tuya_client (client self) \<or> ts = PyNone"
      "h' = h3 @ GetMeals home (Inr ms)
              # (if tuya_client (client self) then [GetTuyaStatus (Inr ts)] else []) @ [Sleep ?d (Inr ())]"
      "vars' = \<lparr>devices = devices vars @ ds, meals = meals vars @ ms,
                events_by_home_and_type = ev, settings = st,
                base_data = Some [''tuya_status'' \<mapsto> ts]\<rparr>"
    by (rule home_iteration_InrE)
  have "appends (\<lambda>c. True) (for_event_types self home ets (events_by_home_and_type vars))"
    by (rule appends_for_event_types) simp_all
  from appendsD [OF this run(1)] obtain t2 where
    t2: "h2 = (h @ [GetDevices home (Inr ds), Sleep ?d (Inr ())]) @ t2" "list_all (\<lambda>c. True) t2" .
  have "appends (\<lambda>c. True) (for_devices self home ds (settings vars))"
    by (rule appends_for_devices) simp_all
  from appendsD [OF this run(2)] obtain t3 where
    t3: "h3 = h2 @ t3" "list_all (\<lambda>c. True) t3" .
  let ?pre = "[GetDevices home (Inr ds), Sleep ?d (Inr ())] @ t2 @ t3"
  have "h' = h @ ?pre @ GetMeals home (Inr ms)
            # (if tuya_client (client self) then [GetTuyaStatus (Inr ts)] else []) @ [Sleep ?d (Inr ())]"
    using run(4) t2(1) t3(1) by simp
  moreover note run(3)
  moreover have "base_data vars' = Some [''tuya_status'' \<mapsto> ts]" using run(5) by simp
  ultimately show thesis by (rule that)
qed

lemma for_homes_base_data:
  "homes \<noteq> [] \<Longrightarrow> for_homes self ets homes vars h = (Inr vars', h') \<Longrightarrow>
   \<exists>pre ms ts.
     h' = h @ pre @ GetMeals (last homes) (Inr ms)
            # (if tuya_client (client self) then [GetTuyaStatus (Inr ts)] else [])
            @ [Sleep (delay_between_calls self) (Inr ())] \<and>
     (tuya_client (client self) \<or> ts = PyNone) \<and>
     base_data vars' = Some [''tuya_status'' \<mapsto> ts]"
proof (induction homes arbitrary: vars h)
  case Nil
  then show ?case by simp
next
  case (Cons home rest)
  let ?d = "delay_between_calls self"
  from Cons.prems(2) obtain vars1 h1 where
    first: "home_iteration self ets home vars h = (Inr vars1, h1)" and
    others: "for_homes self ets rest vars1 h1 = (Inr vars', h')"
    by (rule for_homes_ConsE)
  show ?case
  proof (cases "rest = []")
    case True
    with others have same: "vars' = vars1" "h' = h1" by (simp_all add: return_io_iff)
    from first obtain pre ms ts where
      "h1 = h @ pre @ GetMeals home (Inr ms)
            # (if tuya_client (client self) then [GetTuyaStatus (Inr ts)] else []) @ [Sleep ?d (Inr ())]"
      "tuya_client (client self) \<or> ts = PyNone"
      "base_data vars1 = Some [''tuya_status'' \<mapsto> ts]"
      by (rule home_iteration_ends)
    with same True have
      "h' = h @ pre @ GetMeals (last (home # rest)) (Inr ms)
            # (if tuya_client (client self) then [GetTuyaStatus (Inr ts)] else []) @ [Sleep ?d (Inr ())] \<and>
       (tuya_client (client self) \<or> ts = PyNone) \<and>
       base_data vars' = Some [''tuya_status'' \<mapsto> ts]"
      by simp
    then show ?thesis by (intro exI [of _ pre] exI [of _ ms] exI [of _ ts])
  next
    case False
    from appendsD [OF appends_home_iteration first] obtain t1 where
      t1: "h1 = h @ t1" "list_all (\<lambda>c. True) t1" .
    from Cons.IH [OF False others] obtain pre ms ts where
      later: "h' = h1 @ pre @ GetMeals (last rest) (Inr ms)
            # (if tuya_client (client self) then [GetTuyaStatus (Inr ts)] else []) @ [Sleep ?d (Inr ())]"
        "tuya_client (client self) \<or> ts = PyNone"
        "base_data vars' = Some [''tuya_status'' \<mapsto> ts]"
      by (elim exE conjE)
    with t1(1) False have
      "h' = h @ (t1 @ pre) @ GetMeals (last (home # rest)) (Inr ms)
            # (if tuya_client (client self) then [GetTuyaStatus (Inr ts)] else []) @ [Sleep ?d (Inr ())] \<and>
       (tuya_client (client self) \<or> ts = PyNone) \<and>
       base_data vars' = Some [''tuya_status'' \<mapsto> ts]"
      by simp
    then show ?thesis by (intro exI [of _ "t1 @ pre"] exI [of _ ms] exI [of _ ts])
  qed
qed

subsection \<open>What a refresh returns\<close>





subsection \<open>Running the examples\<close>

lemmas run_defs =
  async_update_data_def try_body_def bind_io_def perform_def sleep_def return_io_def
  raise_io_def home_iteration_def fetch_tuya_status_def build_result_def

lemmas ex_defs = ex_coord_def ex_client_def homeA_def homeB_def dev1_def dev2_def dev3_def


lemmas host_defs = ex_host_def ex_entry_def make_client_def dict_get_def
  extract_tuya_credentials_def

lemma ex_coord_devices:
  "\<exists>data h'. async_update_data ex_coord [] = (Inr data, h') \<and>
     data ''devices'' = Some (DevicesV [dev1, dev2, dev3])"
  by (simp add: run_defs ex_defs)

lemmas ex_no_tuya_defs = ex_coord_no_tuya_def ex_defs

lemma ex_coord_no_tuya_devices:
  "\<exists>data h'. async_update_data ex_coord_no_tuya [] = (Inr data, h') \<and>
     data ''devices'' = Some (DevicesV [dev1, dev2, dev3])"
  by (simp add: run_defs ex_no_tuya_defs)

lemma map_upd_eq_iff: "m(k \<mapsto> a) = m(k \<mapsto> b) \<longleftrightarrow> a = b"
  by (auto dest: map_upd_eqD1)

lemma ex_coord_base_data:
  "\<exists>data h'. async_update_data ex_coord [] = (Inr data, h') \<and>
     data ''base_data'' = Some (BaseDataV [''tuya_status'' \<mapsto> Val 26]) \<and>
     h' ! 14 = GetTuyaStatus (Inr (Val 14)) \<and> length h' = 28"
  by (simp add: run_defs ex_defs map_upd_eq_iff)



subsection \<open>C1: the outcomes of a refresh\<close>




subsection \<open>C2: the devices of the snapshot\<close>

text \<open>
  Claim C2. After a successful refresh, the calls made are \<^verbatim>\<open>get_homes\<close> and then, among the
  others, one \<^verbatim>\<open>get_devices\<close> per home in the order of the listing; the \<^verbatim>\<open>devices\<close> of the
  returned dictionary are the lists these calls returned, one after the other in that order,
  nothing added and nothing left out.
\<close>

theorem devices_are_concatenation:
  assumes "async_update_data self h = (Inr data, h')"
  shows "\<exists>homes tr.
           get_homes (client self) h = Inr homes \<and>
           h' = h @ GetHomes (Inr homes) # tr \<and>
           map fst (device_fetches tr) = homes \<and>
           data ''devices'' = Some (DevicesV (concat (map snd (device_fetches tr))))"
proof -
  from assms obtain homes vars bd where
    homes: "get_homes (client self) h = Inr homes" and
    loop: "for_homes self (get_event_types (client self)) homes
       \<lparr>devices = [], meals = [], events_by_home_and_type = Map.empty,
        settings = Map.empty, base_data = None\<rparr> (h @ [GetHomes (Inr homes)]) = (Inr vars, h')" and
    data: "data = [''homes'' \<mapsto> HomesV homes,
             ''devices'' \<mapsto> DevicesV (devices vars),
             ''meals'' \<mapsto> MealsV (meals vars),
             ''events_by_home_and_type'' \<mapsto> EventsV (events_by_home_and_type vars),
             ''event_types'' \<mapsto> EventTypesV (get_event_types (client self)),
             ''settings'' \<mapsto> SettingsV (settings vars),
             ''base_data'' \<mapsto> BaseDataV bd]"
    by (rule async_update_data_InrE)
  from for_homes_devices [OF loop] obtain tr where
    tr: "h' = (h @ [GetHomes (Inr homes)]) @ tr" "map fst (device_fetches tr) = homes"
      "devices vars = [] @ concat (map snd (device_fetches tr))"
    unfolding locals.simps by (elim exE conjE)
  from data tr(3) have "data ''devices'' = Some (DevicesV (concat (map snd (device_fetches tr))))"
    by simp
  with homes tr(1,2) have "get_homes (client self) h = Inr homes \<and>
           h' = h @ GetHomes (Inr homes) # tr \<and>
           map fst (device_fetches tr) = homes \<and>
           data ''devices'' = Some (DevicesV (concat (map snd (device_fetches tr))))"
    by simp
  then show ?thesis by (intro exI [of _ homes] exI [of _ tr])
qed

text \<open>
  The example installation: two device lists, of the first home and of the second, and the
  three devices in that order.
\<close>

theorem devices_are_concatenation_witness:
  "\<exists>data h' tr.
     async_update_data ex_coord [] = (Inr data, h') \<and>
     h' = GetHomes (Inr [homeA, homeB]) # tr \<and>
     map fst (device_fetches tr) = [homeA, homeB] \<and>
     data ''devices'' = Some (DevicesV (concat (map snd (device_fetches tr)))) \<and>
     data ''devices'' = Some (DevicesV [dev1, dev2, dev3])"
proof -
  from ex_coord_devices obtain data h' where
    run: "async_update_data ex_coord [] = (Inr data, h')" and
    three: "data ''devices'' = Some (DevicesV [dev1, dev2, dev3])"
    by (elim exE conjE)
  from devices_are_concatenation [OF run] obtain homes tr where
    listed: "get_homes (client ex_coord) [] = Inr homes" and
    calls: "h' = [] @ GetHomes (Inr homes) # tr" "map fst (device_fetches tr) = homes"
      "data ''devices'' = Some (DevicesV (concat (map snd (device_fetches tr))))"
    by (elim exE conjE)
  from listed have "homes = [homeA, homeB]"
    by (simp add: ex_coord_def ex_client_def)
  with run three calls have
    "async_update_data ex_coord [] = (Inr data, h') \<and>
     h' = GetHomes (Inr [homeA, homeB]) # tr \<and>
     map fst (device_fetches tr) = [homeA, homeB] \<and>
     data ''devices'' = Some (DevicesV (concat (map snd (device_fetches tr)))) \<and>
     data ''devices'' = Some (DevicesV [dev1, dev2, dev3])"
    by simp
  then show ?thesis by (intro exI [of _ data] exI [of _ h'] exI [of _ tr])
qed

subsection \<open>C3: the events of the snapshot\<close>

text \<open>The window of every \<^verbatim>\<open>get_events\<close> call, with the offset in seconds.\<close>

lemma fixed_window:
  "from_date = \<lparr>year = 2024, month = 1, day = 1, hour = 0, minute = 0, second = 0, utcoffset = 2 * 3600\<rparr>"
  "to_date = \<lparr>year = 2100, month = 1, day = 1, hour = 0, minute = 0, second = 0, utcoffset = 2 * 3600\<rparr>"
  by (simp_all add: from_date_def to_date_def mk_datetime_def timedelta_hours_def)



text \<open>
  The keys of the visited pairs are pairwise distinct when the homes have distinct ids, the
  event types distinct strings, and no event type string is the end of another one after
  an underscore.
\<close>

lemma visits_product: "visits homes ets = List.product homes ets"
  by (induction homes) simp_all

lemma key_split:
  assumes "a @ ''_'' @ s = b @ ''_'' @ t"
    and "\<forall>x. t \<noteq> x @ ''_'' @ s" and "\<forall>x. s \<noteq> x @ ''_'' @ t"
  shows "a = b \<and> s = t"
proof -
  from assms(1) obtain us where
    "a = b @ us \<and> us @ ''_'' @ s = ''_'' @ t \<or> a @ us = b \<and> ''_'' @ s = us @ ''_'' @ t"
    by (auto simp: append_eq_append_conv2)
  then show ?thesis
  proof
    assume left: "a = b @ us \<and> us @ ''_'' @ s = ''_'' @ t"
    show ?thesis
    proof (cases us)
      case Nil
      with left show ?thesis by simp
    next
      case (Cons c cs)
      with left have "t = cs @ ''_'' @ s" by simp
      with assms(2) show ?thesis by blast
    qed
  next
    assume right: "a @ us = b \<and> ''_'' @ s = us @ ''_'' @ t"
    show ?thesis
    proof (cases us)
      case Nil
      with right show ?thesis by simp
    next
      case (Cons c cs)
      with right have "s = cs @ ''_'' @ t" by simp
      with assms(3) show ?thesis by blast
    qed
  qed
qed

lemma distinct_visit_keys:
  assumes ids: "distinct (map home_id homes)"
    and types: "distinct (map event_type_str ets)"
    and tails: "\<forall>t \<in> set ets. \<forall>t' \<in> set ets. \<forall>x. event_type_str t' \<noteq> x @ ''_'' @ event_type_str t"
  shows "distinct (map visit_key (visits homes ets))"
proof -
  from ids have homes: "distinct homes" "inj_on home_id (set homes)"
    by (simp_all add: distinct_map)
  from types have ets: "distinct ets" "inj_on event_type_str (set ets)"
    by (simp_all add: distinct_map)
  have "inj_on visit_key (set (List.product homes ets))"
  proof (rule inj_onI)
    fix p q
    assume p: "p \<in> set (List.product homes ets)" and q: "q \<in> set (List.product homes ets)"
      and same: "visit_key p = visit_key q"
    obtain h1 t1 where p': "p = (h1, t1)" by (cases p)
    obtain h2 t2 where q': "q = (h2, t2)" by (cases q)
    from p q p' q' have mem: "h1 \<in> set homes" "t1 \<in> set ets" "h2 \<in> set homes" "t2 \<in> set ets"
      by simp_all
    from same p' q' have "home_id h1 @ ''_'' @ event_type_str t1
        = home_id h2 @ ''_'' @ event_type_str t2"
      by (simp add: event_key_def)
    moreover from tails mem have "\<forall>x. event_type_str t2 \<noteq> x @ ''_'' @ event_type_str t1"
      "\<forall>x. event_type_str t1 \<noteq> x @ ''_'' @ event_type_str t2"
      by blast+
    ultimately have "home_id h1 = home_id h2 \<and> event_type_str t1 = event_type_str t2"
      by (rule key_split)
    with homes(2) ets(2) mem have "h1 = h2" "t1 = t2" by (auto dest: inj_onD)
    with p' q' show "p = q" by simp
  qed
  moreover from homes(1) ets(1) have "distinct (List.product homes ets)"
    by (rule distinct_product)
  ultimately show ?thesis by (simp add: visits_product distinct_map)
qed




subsection \<open>C4: rejected credentials during a refresh\<close>

text \<open>
  \<^verbatim>\<open>_async_update_data\<close> has one handler, which raises \<^verbatim>\<open>UpdateFailed\<close> from every
  instance of \<^verbatim>\<open>Exception\<close>; what it lets pass is no instance of \<^verbatim>\<open>Exception\<close>. Whatever the
  cause, a refresh never raises \<^verbatim>\<open>ConfigEntryAuthFailed\<close>.
\<close>

lemma update_never_auth_failed:
  "fst (async_update_data self h) \<noteq> Inl (ConfigEntryAuthFailed msg cause)"
  by (auto simp: async_update_data_def split: prod.splits sum.splits)

text \<open>
  Claim C4 says that an \<^verbatim>\<open>invalid_client\<close> error during a refresh is surfaced as the
  re-authentication condition. It is not: when \<^verbatim>\<open>get_homes\<close> raises an exception whose text
  contains \<^verbatim>\<open>invalid_client\<close>, the very text \<^verbatim>\<open>async_setup_entry\<close> looks for after
  \<^verbatim>\<open>initialize\<close>, the refresh raises the generic \<^verbatim>\<open>UpdateFailed\<close>.
\<close>

theorem refresh_rejected_credentials:
  "py_in ''invalid_client'' (str_exn (Exception ''invalid_client: bad credentials'')) \<and>
   async_update_data rejected_coord [] =
     (Inl (UpdateFailed ''Error communicating with API: invalid_client: bad credentials''
             (Exception ''invalid_client: bad credentials'')),
      [GetHomes (Inl (Exception ''invalid_client: bad credentials''))])"
  by (simp add: run_defs rejected_coord_def)

subsection \<open>C5: a failing initialisation at setup\<close>

text \<open>\<open>py_in\<close> is the substring test.\<close>

lemma py_in_iff: "py_in needle hay \<longleftrightarrow> (\<exists>before after. hay = before @ needle @ after)"
proof (induction hay)
  case Nil
  then show ?case by simp
next
  case (Cons c cs)
  note IH = Cons.IH
  have starts: "take (length needle) (c # cs) = needle \<longleftrightarrow> (\<exists>after. c # cs = needle @ after)"
    by (metis append_eq_conv_conj append_take_drop_id)
  show ?case
  proof
    assume "py_in needle (c # cs)"
    then consider "take (length needle) (c # cs) = needle" | "py_in needle cs" by auto
    then show "\<exists>before after. c # cs = before @ needle @ after"
    proof cases
      case 1
      with starts obtain after where "c # cs = [] @ needle @ after" by auto
      then show ?thesis by (intro exI)
    next
      case 2
      with IH obtain before after where "cs = before @ needle @ after" by auto
      then have "c # cs = (c # before) @ needle @ after" by simp
      then show ?thesis by (intro exI)
    qed
  next
    assume "\<exists>before after. c # cs = before @ needle @ after"
    then obtain before after where split: "c # cs = before @ needle @ after" by (elim exE)
    show "py_in needle (c # cs)"
    proof (cases before)
      case Nil
      with split have "\<exists>after. c # cs = needle @ after" by auto
      then have "take (length needle) (c # cs) = needle" by (simp only: starts)
      then show ?thesis by simp
    next
      case (Cons b bs)
      with split have "cs = bs @ needle @ after" by simp
      then have "\<exists>before after. cs = before @ needle @ after" by (intro exI)
      then have "py_in needle cs" by (simp only: IH)
      then show ?thesis by simp
    qed
  qed
qed

text \<open>
  Claim C5. When \<^verbatim>\<open>initialize\<close> raises an exception during setup, \<^verbatim>\<open>async_setup_entry\<close>
  raises \<^verbatim>\<open>ConfigEntryAuthFailed\<close> from that exception if its text contains
  \<^verbatim>\<open>invalid_client\<close>, and returns \<^verbatim>\<open>False\<close> otherwise. In both cases \<^verbatim>\<open>hass.data\<close> is what it
  was, so neither client nor coordinator is stored, and no call follows the failed one.
  The same holds for \<^verbatim>\<open>hass.data\<close> and the calls when \<^verbatim>\<open>initialize\<close> raises what is not an
  instance of \<^verbatim>\<open>Exception\<close>, which leaves \<^verbatim>\<open>async_setup_entry\<close> as it was raised.
\<close>

theorem setup_initialize_failure:
  "initialize (make_client hass entry) h = Inl e \<Longrightarrow>
   async_setup_entry hass entry hass_data h =
     (if \<not> is_Exception e then Inl e
      else if py_in ''invalid_client'' (str_exn e)
      then Inl (ConfigEntryAuthFailed ''Invalid client credentials. Please re-authenticate.'' e)
      else Inr False,
      hass_data, h @ [Initialize (Inl e)])"
  by (simp add: async_setup_entry_def perform_def)

text \<open>Rejected credentials, a timeout and a cancellation, on an empty \<^verbatim>\<open>hass.data\<close>.\<close>

theorem setup_initialize_failure_witness:
  "initialize (make_client (ex_host (Some (Exception ''invalid_client: bad credentials'')) True) ex_entry) []
     = Inl (Exception ''invalid_client: bad credentials'') \<and>
   async_setup_entry (ex_host (Some (Exception ''invalid_client: bad credentials'')) True) ex_entry
       Map.empty [] =
     (Inl (ConfigEntryAuthFailed ''Invalid client credentials. Please re-authenticate.''
             (Exception ''invalid_client: bad credentials'')),
      Map.empty, [Initialize (Inl (Exception ''invalid_client: bad credentials''))]) \<and>
   initialize (make_client (ex_host (Some (Exception ''connection timed out'')) True) ex_entry) []
     = Inl (Exception ''connection timed out'') \<and>
   async_setup_entry (ex_host (Some (Exception ''connection timed out'')) True) ex_entry
       Map.empty [] =
     (Inr False, Map.empty, [Initialize (Inl (Exception ''connection timed out''))]) \<and>
   initialize (make_client (ex_host (Some CancelledError) True) ex_entry) [] = Inl CancelledError \<and>
   async_setup_entry (ex_host (Some CancelledError) True) ex_entry Map.empty [] =
     (Inl CancelledError, Map.empty, [Initialize (Inl CancelledError)])"
proof -
  let ?bad = "Exception ''invalid_client: bad credentials''"
  let ?slow = "Exception ''connection timed out''"
  have bad: "initialize (make_client (ex_host (Some ?bad) True) ex_entry) [] = Inl ?bad"
    by (simp add: host_defs)
  have slow: "initialize (make_client (ex_host (Some ?slow) True) ex_entry) [] = Inl ?slow"
    by (simp add: host_defs)
  have cancelled:
    "initialize (make_client (ex_host (Some CancelledError) True) ex_entry) [] = Inl CancelledError"
    by (simp add: host_defs)
  from setup_initialize_failure [OF bad, of Map.empty] setup_initialize_failure [OF slow, of Map.empty]
    setup_initialize_failure [OF cancelled, of Map.empty] bad slow cancelled
  show ?thesis by simp
qed

subsection \<open>C6: no local backend\<close>

lemma for_devices_without_local_status:
  assumes "\<not> tuya_client (client self)"
  shows "for_devices self home ds st h = (Inr st', h') \<Longrightarrow>
    dom st' = dom st \<union> device_id ` set ds \<and>
    (\<forall>d entry. st' d = Some entry \<longrightarrow>
       st d = Some entry \<or> entry ''tuya_status'' = Some PyNone)"
proof (induction ds arbitrary: st h)
  case Nil
  then show ?case by (simp add: return_io_iff)
next
  case (Cons device rest)
  from Cons.prems obtain s ts h1 where
    ts: "tuya_client (client self) \<or> ts = PyNone" and
    others: "for_devices self home rest (st(device_id device \<mapsto> s(''tuya_status'' \<mapsto> ts))) h1
       = (Inr st', h')"
    by (rule for_devices_ConsE)
  from ts assms have none: "ts = PyNone" by simp
  let ?st1 = "st(device_id device \<mapsto> s(''tuya_status'' \<mapsto> ts))"
  note ih = Cons.IH [OF others]
  from ih have keys: "dom st' = dom ?st1 \<union> device_id ` set rest"
    by (rule conjunct1)
  from ih have entries: "\<forall>d entry. st' d = Some entry \<longrightarrow>
       ?st1 d = Some entry \<or> entry ''tuya_status'' = Some PyNone"
    by (rule conjunct2)
  from keys have "dom st' = dom st \<union> device_id ` set (device # rest)" by auto
  moreover have "\<forall>d entry. st' d = Some entry \<longrightarrow>
       st d = Some entry \<or> entry ''tuya_status'' = Some PyNone"
  proof (intro allI impI)
    fix d entry
    assume "st' d = Some entry"
    with entries have "?st1 d = Some entry \<or> entry ''tuya_status'' = Some PyNone" by simp
    with none show "st d = Some entry \<or> entry ''tuya_status'' = Some PyNone"
      by (cases "d = device_id device") auto
  qed
  ultimately show ?case by simp
qed

lemma home_iteration_without_local_status:
  assumes no_tuya: "\<not> tuya_client (client self)"
    and run: "home_iteration self ets home vars h = (Inr vars', h')"
    and inv: "without_local_status vars"
  shows "without_local_status vars'"
proof -
  from run obtain ds ev h2 st h3 ms ts where
    loop: "for_devices self home ds (settings vars) h2 = (Inr st, h3)" and
    ts: "tuya_client (client self) \<or> ts = PyNone" and
    vars': "vars' = \<lparr>devices = devices vars @ ds, meals = meals vars @ ms,
              events_by_home_and_type = ev, settings = st,
              base_data = Some [''tuya_status'' \<mapsto> ts]\<rparr>"
    by (rule home_iteration_InrE)
  from ts no_tuya have none: "ts = PyNone" by simp
  note after = for_devices_without_local_status [OF no_tuya loop]
  from after have keys: "dom st = dom (settings vars) \<union> device_id ` set ds"
    by (rule conjunct1)
  from after have entries: "\<forall>d entry. st d = Some entry \<longrightarrow>
       settings vars d = Some entry \<or> entry ''tuya_status'' = Some PyNone"
    by (rule conjunct2)
  from inv have old:
    "dom (settings vars) = device_id ` set (devices vars)"
    "\<forall>d entry. settings vars d = Some entry \<longrightarrow> entry ''tuya_status'' = Some PyNone"
    by (simp_all add: without_local_status_def)
  from keys old(1) have "dom st = device_id ` set (devices vars @ ds)" by auto
  moreover from entries old(2)
  have "\<forall>d entry. st d = Some entry \<longrightarrow> entry ''tuya_status'' = Some PyNone" by blast
  ultimately show ?thesis using vars' none by (simp add: without_local_status_def)
qed

lemma for_homes_without_local_status:
  assumes no_tuya: "\<not> tuya_client (client self)"
  shows "for_homes self ets homes vars h = (Inr vars', h') \<Longrightarrow> without_local_status vars
    \<Longrightarrow> without_local_status vars'"
proof (induction homes arbitrary: vars h)
  case Nil
  then show ?case by (simp add: return_io_iff)
next
  case (Cons home rest)
  from Cons.prems(1) obtain vars1 h1 where
    first: "home_iteration self ets home vars h = (Inr vars1, h1)" and
    others: "for_homes self ets rest vars1 h1 = (Inr vars', h')"
    by (rule for_homes_ConsE)
  from home_iteration_without_local_status [OF no_tuya first Cons.prems(2)]
  have "without_local_status vars1" .
  with Cons.IH [OF others] show ?case .
qed

text \<open>
  Claim C6. After a successful refresh of a client without local backend, the settings
  have one entry per device of the snapshot, every entry has the key \<^verbatim>\<open>tuya_status\<close> with the
  value \<^verbatim>\<open>None\<close>, and \<^verbatim>\<open>base_data\<close> is the dictionary with that one key and the same value.
\<close>

theorem no_backend_tuya_status_none:
  assumes "\<not> tuya_client (client self)" and "async_update_data self h = (Inr data, h')"
  shows "\<exists>ds st.
           data ''devices'' = Some (DevicesV ds) \<and>
           data ''settings'' = Some (SettingsV st) \<and>
           dom st = device_id ` set ds \<and>
           (\<forall>d entry. st d = Some entry \<longrightarrow> entry ''tuya_status'' = Some PyNone) \<and>
           data ''base_data'' = Some (BaseDataV [''tuya_status'' \<mapsto> PyNone])"
proof -
  let ?init = "\<lparr>devices = [], meals = [], events_by_home_and_type = Map.empty,
        settings = Map.empty, base_data = None\<rparr> :: ('a, 'b, 'c) locals"
  from assms(2) obtain homes vars bd where
    loop: "for_homes self (get_event_types (client self)) homes ?init
             (h @ [GetHomes (Inr homes)]) = (Inr vars, h')" and
    bd: "base_data vars = Some bd" and
    data: "data = [''homes'' \<mapsto> HomesV homes,
             ''devices'' \<mapsto> DevicesV (devices vars),
             ''meals'' \<mapsto> MealsV (meals vars),
             ''events_by_home_and_type'' \<mapsto> EventsV (events_by_home_and_type vars),
             ''event_types'' \<mapsto> EventTypesV (get_event_types (client self)),
             ''settings'' \<mapsto> SettingsV (settings vars),
             ''base_data'' \<mapsto> BaseDataV bd]"
    by (rule async_update_data_InrE)
  have "without_local_status ?init" by (simp add: without_local_status_def)
  with for_homes_without_local_status [OF assms(1) loop] have "without_local_status vars" .
  with bd have
    "dom (settings vars) = device_id ` set (devices vars)"
    "\<forall>d entry. settings vars d = Some entry \<longrightarrow> entry ''tuya_status'' = Some PyNone"
    "bd = [''tuya_status'' \<mapsto> PyNone]"
    by (simp_all add: without_local_status_def)
  with data have "data ''devices'' = Some (DevicesV (devices vars)) \<and>
           data ''settings'' = Some (SettingsV (settings vars)) \<and>
           dom (settings vars) = device_id ` set (devices vars) \<and>
           (\<forall>d entry. settings vars d = Some entry \<longrightarrow> entry ''tuya_status'' = Some PyNone) \<and>
           data ''base_data'' = Some (BaseDataV [''tuya_status'' \<mapsto> PyNone])"
    by simp
  then show ?thesis by (intro exI [of _ "devices vars"] exI [of _ "settings vars"])
qed

text \<open>The example installation without its local backend: three entries, all with \<^verbatim>\<open>None\<close>.\<close>

theorem no_backend_tuya_status_none_witness:
  "\<not> tuya_client (client ex_coord_no_tuya) \<and>
   (\<exists>data h' st e1 e2 e3.
      async_update_data ex_coord_no_tuya [] = (Inr data, h') \<and>
      data ''settings'' = Some (SettingsV st) \<and>
      dom st = {''d1'', ''d2'', ''d3''} \<and>
      st ''d1'' = Some e1 \<and> e1 ''tuya_status'' = Some PyNone \<and>
      st ''d2'' = Some e2 \<and> e2 ''tuya_status'' = Some PyNone \<and>
      st ''d3'' = Some e3 \<and> e3 ''tuya_status'' = Some PyNone \<and>
      data ''base_data'' = Some (BaseDataV [''tuya_status'' \<mapsto> PyNone]))"
proof -
  have off: "\<not> tuya_client (client ex_coord_no_tuya)"
    by (simp add: ex_coord_no_tuya_def)
  from ex_coord_no_tuya_devices obtain data h' where
    run: "async_update_data ex_coord_no_tuya [] = (Inr data, h')" and
    three: "data ''devices'' = Some (DevicesV [dev1, dev2, dev3])"
    by (elim exE conjE)
  from no_backend_tuya_status_none [OF off run] obtain ds st where
    ds: "data ''devices'' = Some (DevicesV ds)" and
    st: "data ''settings'' = Some (SettingsV st)" and
    keys: "dom st = device_id ` set ds" and
    entries: "\<forall>d entry. st d = Some entry \<longrightarrow> entry ''tuya_status'' = Some PyNone" and
    base: "data ''base_data'' = Some (BaseDataV [''tuya_status'' \<mapsto> PyNone])"
    by (elim exE conjE)
  from ds three have "ds = [dev1, dev2, dev3]" by simp
  with keys have dom: "dom st = {''d1'', ''d2'', ''d3''}"
    by (simp add: dev1_def dev2_def dev3_def)
  then have "''d1'' \<in> dom st" "''d2'' \<in> dom st" "''d3'' \<in> dom st" by simp_all
  then have "st ''d1'' \<noteq> None" "st ''d2'' \<noteq> None" "st ''d3'' \<noteq> None"
    by (simp_all add: domIff)
  then obtain e1 e2 e3 where
    e: "st ''d1'' = Some e1" "st ''d2'' = Some e2" "st ''d3'' = Some e3"
    by (auto simp only: not_None_eq)
  with entries have none:
    "e1 ''tuya_status'' = Some PyNone" "e2 ''tuya_status'' = Some PyNone"
    "e3 ''tuya_status'' = Some PyNone"
    by blast+
  from run st dom e base none have
    "async_update_data ex_coord_no_tuya [] = (Inr data, h') \<and>
      data ''settings'' = Some (SettingsV st) \<and>
      dom st = {''d1'', ''d2'', ''d3''} \<and>
      st ''d1'' = Some e1 \<and> e1 ''tuya_status'' = Some PyNone \<and>
      st ''d2'' = Some e2 \<and> e2 ''tuya_status'' = Some PyNone \<and>
      st ''d3'' = Some e3 \<and> e3 ''tuya_status'' = Some PyNone \<and>
      data ''base_data'' = Some (BaseDataV [''tuya_status'' \<mapsto> PyNone])"
    by simp
  then have "\<exists>data h' st e1 e2 e3.
      async_update_data ex_coord_no_tuya [] = (Inr data, h') \<and>
      data ''settings'' = Some (SettingsV st) \<and>
      dom st = {''d1'', ''d2'', ''d3''} \<and>
      st ''d1'' = Some e1 \<and> e1 ''tuya_status'' = Some PyNone \<and>
      st ''d2'' = Some e2 \<and> e2 ''tuya_status'' = Some PyNone \<and>
      st ''d3'' = Some e3 \<and> e3 ''tuya_status'' = Some PyNone \<and>
      data ''base_data'' = Some (BaseDataV [''tuya_status'' \<mapsto> PyNone])"
    by (intro exI [of _ data] exI [of _ h'] exI [of _ st] exI [of _ e1] exI [of _ e2]
          exI [of _ e3])
  with off show ?thesis by (rule conjI)
qed

subsection \<open>C7: base_data holds the status of the last home\<close>

text \<open>
  Claim C7. A successful refresh listed at least one home. Its last three calls (two when
  no local backend is configured) are \<^verbatim>\<open>get_meals\<close> for the last home of the listing, the
  status query that follows it and the closing sleep; \<^verbatim>\<open>base_data\<close> in the returned
  dictionary is the dictionary with the single key \<^verbatim>\<open>tuya_status\<close> and the answer of that
  query (\<^verbatim>\<open>None\<close> without local backend). Nothing of the iterations of the earlier homes is
  in it.
\<close>

theorem base_data_of_last_home:
  assumes "async_update_data self h = (Inr data, h')"
  shows "\<exists>homes pre ms ts.
           get_homes (client self) h = Inr homes \<and> homes \<noteq> [] \<and>
           h' = h @ pre @ GetMeals (last homes) (Inr ms)
                  # (if tuya_client (client self) then [GetTuyaStatus (Inr ts)] else [])
                  @ [Sleep (delay_between_calls self) (Inr ())] \<and>
           (tuya_client (client self) \<or> ts = PyNone) \<and>
           data ''base_data'' = Some (BaseDataV [''tuya_status'' \<mapsto> ts])"
proof -
  let ?d = "delay_between_calls self"
  let ?init = "\<lparr>devices = [], meals = [], events_by_home_and_type = Map.empty,
        settings = Map.empty, base_data = None\<rparr> :: ('a, 'b, 'c) locals"
  from assms obtain homes vars bd where
    homes: "get_homes (client self) h = Inr homes" and
    loop: "for_homes self (get_event_types (client self)) homes ?init
             (h @ [GetHomes (Inr homes)]) = (Inr vars, h')" and
    bd: "base_data vars = Some bd" and
    data: "data = [''homes'' \<mapsto> HomesV homes,
             ''devices'' \<mapsto> DevicesV (devices vars),
             ''meals'' \<mapsto> MealsV (meals vars),
             ''events_by_home_and_type'' \<mapsto> EventsV (events_by_home_and_type vars),
             ''event_types'' \<mapsto> EventTypesV (get_event_types (client self)),
             ''settings'' \<mapsto> SettingsV (settings vars),
             ''base_data'' \<mapsto> BaseDataV bd]"
    by (rule async_update_data_InrE)
  have some: "homes \<noteq> []"
  proof
    assume "homes = []"
    with loop have "vars = ?init" by (simp add: return_io_iff)
    with bd show False by simp
  qed
  from for_homes_base_data [OF some loop] obtain pre ms ts where
    ends: "h' = (h @ [GetHomes (Inr homes)]) @ pre @ GetMeals (last homes) (Inr ms)
            # (if tuya_client (client self) then [GetTuyaStatus (Inr ts)] else []) @ [Sleep ?d (Inr ())]"
      "tuya_client (client self) \<or> ts = PyNone"
      "base_data vars = Some [''tuya_status'' \<mapsto> ts]"
    by (elim exE conjE)
  from ends(3) bd data have "data ''base_data'' = Some (BaseDataV [''tuya_status'' \<mapsto> ts])"
    by simp
  with homes some ends(1,2) have
    "get_homes (client self) h = Inr homes \<and> homes \<noteq> [] \<and>
           h' = h @ (GetHomes (Inr homes) # pre) @ GetMeals (last homes) (Inr ms)
                  # (if tuya_client (client self) then [GetTuyaStatus (Inr ts)] else [])
                  @ [Sleep ?d (Inr ())] \<and>
           (tuya_client (client self) \<or> ts = PyNone) \<and>
           data ''base_data'' = Some (BaseDataV [''tuya_status'' \<mapsto> ts])"
    by simp
  then show ?thesis
    by (intro exI [of _ homes] exI [of _ "GetHomes (Inr homes) # pre"] exI [of _ ms] exI [of _ ts])
qed

text \<open>
  The example installation: the status computed at the end of the first home's iteration
  was 14, the one of the second home's is 26, and only 26 is published.
\<close>

theorem base_data_of_last_home_witness:
  "\<exists>data h' pre ms.
     async_update_data ex_coord [] = (Inr data, h') \<and>
     h' = pre @ [GetMeals homeB (Inr ms), GetTuyaStatus (Inr (Val 26)), Sleep (1 / 2) (Inr ())] \<and>
     data ''base_data'' = Some (BaseDataV [''tuya_status'' \<mapsto> Val 26]) \<and>
     h' ! 14 = GetTuyaStatus (Inr (Val 14))"
proof -
  from ex_coord_base_data obtain data h' where
    run: "async_update_data ex_coord [] = (Inr data, h')" and
    kept: "data ''base_data'' = Some (BaseDataV [''tuya_status'' \<mapsto> Val 26])" and
    earlier: "h' ! 14 = GetTuyaStatus (Inr (Val 14))"
    by (elim exE conjE)
  from base_data_of_last_home [OF run] obtain homes pre ms ts where
    listed: "get_homes (client ex_coord) [] = Inr homes" and
    ends: "h' = [] @ pre @ GetMeals (last homes) (Inr ms)
                  # (if tuya_client (client ex_coord) then [GetTuyaStatus (Inr ts)] else [])
                  @ [Sleep (delay_between_calls ex_coord) (Inr ())]" and
    base: "data ''base_data'' = Some (BaseDataV [''tuya_status'' \<mapsto> ts])"
    by (elim exE conjE)
  from listed have "homes = [homeA, homeB]"
    by (simp add: ex_coord_def ex_client_def)
  moreover from base kept have "ts = Val 26"
    by (simp add: map_upd_eq_iff)
  ultimately have "h' = pre @ [GetMeals homeB (Inr ms), GetTuyaStatus (Inr (Val 26)), Sleep (1 / 2) (Inr ())]"
    using ends by (simp add: ex_coord_def ex_client_def)
  with run kept earlier have
    "async_update_data ex_coord [] = (Inr data, h') \<and>
     h' = pre @ [GetMeals homeB (Inr ms), GetTuyaStatus (Inr (Val 26)), Sleep (1 / 2) (Inr ())] \<and>
     data ''base_data'' = Some (BaseDataV [''tuya_status'' \<mapsto> Val 26]) \<and>
     h' ! 14 = GetTuyaStatus (Inr (Val 14))"
    by simp
  then show ?thesis by (intro exI [of _ data] exI [of _ h'] exI [of _ pre] exI [of _ ms])
qed

subsection \<open>C8: one refresh at a time\<close>

text \<open>
  Claim C8 is about two refresh requests in flight at once. The class of lines 33 to 50
  adds a client and a delay to the base class \<^verbatim>\<open>DataUpdateCoordinator\<close> of the host platform
  and inherits its scheduling; no statement of this module decides whether a second request
  waits for the first. The functions above run one refresh from start to end, so there are
  no two refreshes to interleave, and the claim is not stated here.
\<close>

subsection \<open>C9: teardown\<close>

text \<open>
  Claim C9. If unloading the platforms does not answer \<^verbatim>\<open>True\<close> (it answers \<^verbatim>\<open>False\<close>, or
  raises), \<^verbatim>\<open>async_unload_entry\<close> gives that answer back, leaves \<^verbatim>\<open>hass.data\<close> as it was
  and makes no further call: the client is not closed. If it answers \<^verbatim>\<open>True\<close>, and the
  entry is stored and the client closes, the client is closed after the platforms were
  unloaded, the entry is removed from \<^verbatim>\<open>hass.data[DOMAIN]\<close> and the result is \<^verbatim>\<open>True\<close>.
\<close>

theorem unload_closes_after_platforms:
  "(async_unload_platforms hass entry PLATFORMS h \<noteq> Inr True \<longrightarrow>
      async_unload_entry hass entry hass_data h =
        (async_unload_platforms hass entry PLATFORMS h, hass_data,
         h @ [UnloadPlatforms (entry_id entry) PLATFORMS
                (async_unload_platforms hass entry PLATFORMS h)])) \<and>
   (async_unload_platforms hass entry PLATFORMS h = Inr True \<and>
    hass_data (DOMAIN hass) = Some per_domain \<and>
    per_domain (entry_id entry) = Some stored \<and>
    close (stored_client stored)
      (h @ [UnloadPlatforms (entry_id entry) PLATFORMS (Inr True)]) = Inr () \<longrightarrow>
      async_unload_entry hass entry hass_data h =
        (Inr True, hass_data(DOMAIN hass \<mapsto> per_domain(entry_id entry := None)),
         h @ [UnloadPlatforms (entry_id entry) PLATFORMS (Inr True), Close (Inr ())]))"
proof (intro conjI impI)
  assume ne: "async_unload_platforms hass entry PLATFORMS h \<noteq> Inr True"
  show "async_unload_entry hass entry hass_data h =
        (async_unload_platforms hass entry PLATFORMS h, hass_data,
         h @ [UnloadPlatforms (entry_id entry) PLATFORMS
                (async_unload_platforms hass entry PLATFORMS h)])"
  proof (cases "async_unload_platforms hass entry PLATFORMS h")
    case (Inl e)
    then show ?thesis by (simp add: async_unload_entry_def perform_def)
  next
    case (Inr ok)
    with ne have "\<not> ok" by simp
    with Inr show ?thesis by (simp add: async_unload_entry_def perform_def)
  qed
next
  assume "async_unload_platforms hass entry PLATFORMS h = Inr True \<and>
    hass_data (DOMAIN hass) = Some per_domain \<and>
    per_domain (entry_id entry) = Some stored \<and>
    close (stored_client stored)
      (h @ [UnloadPlatforms (entry_id entry) PLATFORMS (Inr True)]) = Inr ()"
  then show "async_unload_entry hass entry hass_data h =
        (Inr True, hass_data(DOMAIN hass \<mapsto> per_domain(entry_id entry := None)),
         h @ [UnloadPlatforms (entry_id entry) PLATFORMS (Inr True), Close (Inr ())])"
    by (simp add: async_unload_entry_def perform_def)
qed

text \<open>The stored example entry, with platforms that refuse to unload and that unload.\<close>

theorem unload_closes_after_platforms_witness:
  "async_unload_platforms (ex_host None False) ex_entry PLATFORMS [] \<noteq> Inr True \<and>
   async_unload_entry (ex_host None False) ex_entry ex_hass_data [] =
     (Inr False, ex_hass_data, [UnloadPlatforms ''entry1'' PLATFORMS (Inr False)]) \<and>
   async_unload_platforms (ex_host None True) ex_entry PLATFORMS [] = Inr True \<and>
   async_unload_entry (ex_host None True) ex_entry ex_hass_data [] =
     (Inr True, [''philips_pets_series'' \<mapsto> Map.empty],
      [UnloadPlatforms ''entry1'' PLATFORMS (Inr True), Close (Inr ())])"
proof -
  let ?stored = "\<lparr>stored_client = ex_client, stored_coordinator = ex_coord\<rparr>"
  have refuse: "async_unload_platforms (ex_host None False) ex_entry PLATFORMS [] \<noteq> Inr True"
    by (simp add: ex_host_def)
  have accept:
    "async_unload_platforms (ex_host None True) ex_entry PLATFORMS [] = Inr True \<and>
     ex_hass_data (DOMAIN (ex_host None True)) = Some [''entry1'' \<mapsto> ?stored] \<and>
     [''entry1'' \<mapsto> ?stored] (entry_id ex_entry) = Some ?stored \<and>
     close (stored_client ?stored)
       ([] @ [UnloadPlatforms (entry_id ex_entry) PLATFORMS (Inr True)]) = Inr ()"
    by (simp add: ex_host_def ex_hass_data_def ex_entry_def ex_client_def)
  from unload_closes_after_platforms
         [of "ex_host None False" ex_entry "[]" ex_hass_data]
       refuse
  have first: "async_unload_entry (ex_host None False) ex_entry ex_hass_data [] =
     (Inr False, ex_hass_data, [UnloadPlatforms ''entry1'' PLATFORMS (Inr False)])"
    by (simp add: ex_host_def ex_entry_def)
  from unload_closes_after_platforms
         [of "ex_host None True" ex_entry "[]" ex_hass_data "[''entry1'' \<mapsto> ?stored]" ?stored]
       accept
  have second: "async_unload_entry (ex_host None True) ex_entry ex_hass_data [] =
     (Inr True, [''philips_pets_series'' \<mapsto> Map.empty],
      [UnloadPlatforms ''entry1'' PLATFORMS (Inr True), Close (Inr ())])"
    by (simp add: ex_host_def ex_entry_def ex_hass_data_def)
  from refuse accept first second show ?thesis by simp
qed

subsection \<open>C10: an empty list of homes\<close>

text \<open>
  Claim C10. When \<^verbatim>\<open>get_homes\<close> answers with the empty list, the refresh returns no
  dictionary: the loop never binds \<^verbatim>\<open>base_data\<close>, reading it raises
  \<^verbatim>\<open>UnboundLocalError\<close>, and \<^verbatim>\<open>_async_update_data\<close> raises \<^verbatim>\<open>UpdateFailed\<close> from it, after
  the one call that listed the homes.
\<close>

theorem empty_home_list_raises:
  "get_homes (client self) h = Inr [] \<Longrightarrow>
   async_update_data self h =
     (Inl (UpdateFailed
             (''Error communicating with API: '' @ str_exn (UnboundLocalError ''base_data''))
             (UnboundLocalError ''base_data'')),
      h @ [GetHomes (Inr [])])"
  by (simp add: run_defs)

text \<open>The account without homes, with the message in full.\<close>

theorem empty_home_list_raises_witness:
  "get_homes (client no_homes_coord) [] = Inr [] \<and>
   async_update_data no_homes_coord [] =
     (Inl (UpdateFailed
             ''Error communicating with API: cannot access local variable 'base_data' where it is not associated with a value''
             (UnboundLocalError ''base_data'')),
      [GetHomes (Inr [])])"
proof -
  have empty: "get_homes (client no_homes_coord) [] = Inr []"
    by (simp add: no_homes_coord_def)
  from empty_home_list_raises [OF empty] empty show ?thesis by simp
qed

end
